theory Spec2Isabelle
  imports Main
begin

section \<open>The library plugin: LIBRARY_SEARCH and LIBRARY_DOWNLOAD\<close>

text \<open>
  A shallow embedding of \<^verbatim>\<open>src/plugins/libgen/index.ts\<close>. The two action handlers are
  asynchronous functions that talk to the agent runtime, to a language-model extractor, to
  an HTTP service, to a logger and to the callback of the host. The embedding makes each of
  them explicit:
  \<^item> the collaborators (runtime, extractor, \<^verbatim>\<open>fetch\<close>, \<^verbatim>\<open>JSON.parse\<close>, \<^verbatim>\<open>JSON.stringify\<close>,
    \<^verbatim>\<open>URLSearchParams\<close>, the environment variable) are the fields of a record \<open>env\<close>;
  \<^item> every observable action (callback, log line, runtime call, extractor call, network
    call) is an \<open>event\<close>, and a handler returns the list of its events in program order;
  \<^item> every \<^verbatim>\<open>throw\<close> is the left injection of a sum, so that \<^verbatim>\<open>try\<close>/\<^verbatim>\<open>catch\<close> is a case
    distinction;
  \<^item> values of TypeScript type \<^verbatim>\<open>any\<close> (the extractor's object, the parsed response body)
    are JSON values with JavaScript's dynamic semantics for the operations the handlers
    apply to them.
\<close>

subsection \<open>JavaScript values\<close>

text \<open>
  What \<^verbatim>\<open>JSON.parse\<close> can return. An object is its property table (keys are distinct in a
  parsed object; lookup is \<open>map_of\<close>). A number is given by what ToString prints for it
  (\<^verbatim>\<open>2\<close>, \<^verbatim>\<open>-3\<close>, \<^verbatim>\<open>0.5\<close>, \<^verbatim>\<open>1e+21\<close>): the printed form determines the number up to the
  sign of zero, and the handlers only print numbers, test them for truth and compare them
  with 0, which no sign of zero changes. \<open>None\<close> of type \<open>jsval\<close> is \<^verbatim>\<open>undefined\<close>.
\<close>

datatype json =
    JNull
  | JBool bool
  | JNum string
  | JStr string
  | JArr "json list"
  | JObj "(string \<times> json) list"

type_synonym jsval = "json option"

text \<open>
  What can be thrown, or be the reason of a rejected promise: an \<^verbatim>\<open>Error\<close> object with
  its message (the handlers' own \<^verbatim>\<open>new Error(...)\<close>, the errors of the collaborators), a
  TypeError that the engine itself raises, or any other value, \<^verbatim>\<open>null\<close> and \<^verbatim>\<open>undefined\<close>
  among them. The message text of an engine's TypeError differs between engines, so it is
  a parameter (\<open>type_error_message\<close> below).
\<close>

datatype fault =
    PropertyOfNullish string
  | NotAFunction string
  | NotPrimitive

datatype thrown =
    Error string
  | TypeError fault
  | Value jsval

text \<open>Truthiness, as tested by \<^verbatim>\<open>!x\<close>, \<^verbatim>\<open>x ? a : b\<close> and \<^verbatim>\<open>x || y\<close>.\<close>

fun truthy :: "jsval \<Rightarrow> bool" where
  "truthy None = False"
| "truthy (Some JNull) = False"
| "truthy (Some (JBool b)) = b"
| "truthy (Some (JNum printed)) = (printed \<noteq> ''0'')"
| "truthy (Some (JStr s)) = (s \<noteq> [])"
| "truthy (Some (JArr xs)) = True"
| "truthy (Some (JObj kvs)) = True"

text \<open>
  Decimal numerals, as a template literal prints a natural number below \<open>10\<^sup>2\<^sup>1\<close>: an
  index, the length of an array (below \<open>2\<^sup>3\<^sup>2\<close>), a status code.
\<close>

fun show_nat :: "nat \<Rightarrow> string" where
  "show_nat n =
     (if n < 10 then [''0123456789'' ! n]
      else show_nat (n div 10) @ [''0123456789'' ! (n mod 10)])"

declare show_nat.simps [simp del]

text \<open>
  Property read \<^verbatim>\<open>v.p\<close>, for the data properties the handlers read (\<^verbatim>\<open>books\<close>, \<^verbatim>\<open>total\<close>,
  \<^verbatim>\<open>length\<close>, \<^verbatim>\<open>searchTerm\<close>, \<^verbatim>\<open>md5\<close>, \<^verbatim>\<open>title\<close>, \<^verbatim>\<open>message\<close>, ...): none of them is
  inherited from a prototype except \<^verbatim>\<open>length\<close> of arrays and strings. The length of a
  string is only ever compared with 0 by the handlers.
\<close>

fun get_prop :: "jsval \<Rightarrow> string \<Rightarrow> thrown + jsval" where
  "get_prop None p = Inl (TypeError (PropertyOfNullish p))"
| "get_prop (Some JNull) p = Inl (TypeError (PropertyOfNullish p))"
| "get_prop (Some (JObj kvs)) p = Inr (map_of kvs p)"
| "get_prop (Some (JArr xs)) p =
     Inr (if p = ''length'' then Some (JNum (show_nat (length xs))) else None)"
| "get_prop (Some (JStr s)) p =
     Inr (if p = ''length'' then Some (JNum (show_nat (length s))) else None)"
| "get_prop (Some (JBool b)) p = Inr None"
| "get_prop (Some (JNum printed)) p = Inr None"

text \<open>Optional chaining \<^verbatim>\<open>v?.p\<close>.\<close>

definition opt_prop :: "jsval \<Rightarrow> string \<Rightarrow> thrown + jsval" where
  "opt_prop v p = (if v = None \<or> v = Some JNull then Inr None else get_prop v p)"

text \<open>\<^verbatim>\<open>Array.prototype.join\<close> on strings.\<close>

fun join :: "string \<Rightarrow> string list \<Rightarrow> string" where
  "join sep [] = []"
| "join sep [x] = x"
| "join sep (x # y # ys) = x @ sep @ join sep (y # ys)"

text \<open>
  ToString, as a template literal applies it. An array prints its elements joined by
  commas, \<^verbatim>\<open>null\<close> elements as the empty string. A parsed object prints through
  \<^verbatim>\<open>Object.prototype.toString\<close>, unless an own property \<^verbatim>\<open>toString\<close> (never callable in
  parsed JSON) shadows it, and then the conversion raises a TypeError.
\<close>

fun to_string_json :: "json \<Rightarrow> thrown + string"
  and to_string_elems :: "json list \<Rightarrow> thrown + string list" where
  "to_string_json JNull = Inr ''null''"
| "to_string_json (JBool b) = Inr (if b then ''true'' else ''false'')"
| "to_string_json (JNum printed) = Inr printed"
| "to_string_json (JStr s) = Inr s"
| "to_string_json (JArr xs) =
     (case to_string_elems xs of Inl e \<Rightarrow> Inl e | Inr ss \<Rightarrow> Inr (join '','' ss))"
| "to_string_json (JObj kvs) =
     (if map_of kvs ''toString'' = None then Inr ''[object Object]''
      else Inl (TypeError NotPrimitive))"
| "to_string_elems [] = Inr []"
| "to_string_elems (x # xs) =
     (case (if x = JNull then Inr [] else to_string_json x) of
        Inl e \<Rightarrow> Inl e
      | Inr s \<Rightarrow> (case to_string_elems xs of Inl e \<Rightarrow> Inl e | Inr ss \<Rightarrow> Inr (s # ss)))"

definition to_string :: "jsval \<Rightarrow> thrown + string" where
  "to_string v = (case v of None \<Rightarrow> Inr ''undefined'' | Some j \<Rightarrow> to_string_json j)"

text \<open>Sequencing of computations that may throw.\<close>

definition and_then :: "thrown + 'a \<Rightarrow> ('a \<Rightarrow> thrown + 'b) \<Rightarrow> thrown + 'b" where
  "and_then r f = (case r of Inl e \<Rightarrow> Inl e | Inr a \<Rightarrow> f a)"

text \<open>
  The method call \<^verbatim>\<open>v.map((x, index) => f)\<close>: only an array has a callable \<^verbatim>\<open>map\<close>. The
  elements are visited in order and the first exception ends the traversal.
\<close>

fun map_from :: "nat \<Rightarrow> (json \<Rightarrow> nat \<Rightarrow> thrown + 'b) \<Rightarrow> json list \<Rightarrow> thrown + 'b list" where
  "map_from i f [] = Inr []"
| "map_from i f (x # xs) =
     and_then (f x i) (\<lambda>y. and_then (map_from (Suc i) f xs) (\<lambda>ys. Inr (y # ys)))"

fun call_map :: "jsval \<Rightarrow> (json \<Rightarrow> nat \<Rightarrow> thrown + 'b) \<Rightarrow> thrown + 'b list" where
  "call_map (Some (JArr xs)) f = map_from 0 f xs"
| "call_map None f = Inl (TypeError (PropertyOfNullish ''map''))"
| "call_map (Some JNull) f = Inl (TypeError (PropertyOfNullish ''map''))"
| "call_map (Some v) f = Inl (TypeError (NotAFunction ''map''))"

subsection \<open>Events and computations\<close>

datatype logged = LStr string | LVal jsval | LThrown thrown

datatype template = SEARCH_TEMPLATE | DOWNLOAD_TEMPLATE

datatype event =
    Callback string
  | Log string logged
  | LogError string logged
  | ComposeState
  | UpdateRecentMessageState
  | GenerateObject string
  | Fetch string "(string \<times> string) list"

text \<open>
  A computation is the trace of its events and either the thrown value or the result.
  The logger is a sink. The callback is a function of the host, called like any other and
  never awaited: \<open>call_callback\<close> records the call and returns or throws as the host's
  function does synchronously.
\<close>

type_synonym 'a comp = "event list \<times> (thrown + 'a)"

definition ret :: "'a \<Rightarrow> 'a comp" where
  "ret a = ([], Inr a)"

definition throw :: "thrown \<Rightarrow> 'a comp" where
  "throw e = ([], Inl e)"

definition emit :: "event \<Rightarrow> unit comp" where
  "emit ev = ([ev], Inr ())"

definition lift :: "thrown + 'a \<Rightarrow> 'a comp" where
  "lift r = ([], r)"

definition bnd :: "'a comp \<Rightarrow> ('a \<Rightarrow> 'b comp) \<Rightarrow> 'b comp" where
  "bnd m f =
     (case m of
        (tr, Inl e) \<Rightarrow> (tr, Inl e)
      | (tr, Inr a) \<Rightarrow> (case f a of (tr', r) \<Rightarrow> (tr @ tr', r)))"

definition try_catch :: "unit comp \<Rightarrow> (thrown \<Rightarrow> unit comp) \<Rightarrow> unit comp" where
  "try_catch body handler =
     (case body of
        (tr, Inr u) \<Rightarrow> (tr, Inr u)
      | (tr, Inl error) \<Rightarrow> (case handler error of (tr', r) \<Rightarrow> (tr @ tr', r)))"

definition trace :: "'a comp \<Rightarrow> event list" where
  "trace m = fst m"

definition outcome :: "'a comp \<Rightarrow> thrown + 'a" where
  "outcome m = snd m"

subsection \<open>The collaborators\<close>

text \<open>
  Of the message the handlers read \<^verbatim>\<open>message.content.text\<close> only, of declared type
  \<^verbatim>\<open>string\<close>. A response is what the handlers read of it: \<^verbatim>\<open>ok\<close>, \<^verbatim>\<open>status\<close> and the
  result of \<^verbatim>\<open>await response.text()\<close>.
\<close>

record memory =
  content_text :: string

record http_response =
  ok :: bool
  status :: nat
  body_text :: "thrown + string"

text \<open>
  \<open>RAPID_API_KEY\<close> is \<^verbatim>\<open>process.env.RAPID_API_KEY\<close> (\<open>None\<close> when unset). \<open>composeContext\<close>
  takes the state, the \<^verbatim>\<open>query\<close> entry spread into it (if any) and the template.
  \<open>generateObjectDeprecated\<close> is the extractor; \<open>JSON_parse\<close> returns the message of its
  SyntaxError on the left; \<open>form_urlencode\<close> is the serialisation of one component by
  \<^verbatim>\<open>URLSearchParams.toString\<close>.
\<close>

record 's env =
  RAPID_API_KEY :: "string option"
  composeState :: "memory \<Rightarrow> thrown + 's"
  updateRecentMessageState :: "'s \<Rightarrow> thrown + 's"
  composeContext :: "'s \<Rightarrow> string option \<Rightarrow> template \<Rightarrow> string"
  generateObjectDeprecated :: "string \<Rightarrow> thrown + jsval"
  form_urlencode :: "string \<Rightarrow> string"
  fetch :: "string \<Rightarrow> (string \<times> string) list \<Rightarrow> thrown + http_response"
  JSON_parse :: "string \<Rightarrow> string + json"
  JSON_stringify :: "json \<Rightarrow> string"
  type_error_message :: "fault \<Rightarrow> string"

definition RAPID_API_HOST :: string where
  "RAPID_API_HOST = ''annas-archive-api.p.rapidapi.com''"

definition key_configured :: "'s env \<Rightarrow> bool" where
  "key_configured env = (case RAPID_API_KEY env of None \<Rightarrow> False | Some k \<Rightarrow> k \<noteq> [])"

definition call_callback :: "(string \<Rightarrow> thrown + unit) \<Rightarrow> string \<Rightarrow> unit comp" where
  "call_callback callback txt = ([Callback txt], callback txt)"

text \<open>
  \<^verbatim>\<open>error.message\<close> in a template literal, for the value caught: the message of an
  \<^verbatim>\<open>Error\<close> object, and for any other value the property \<^verbatim>\<open>message\<close> printed, which
  raises a TypeError when the value is \<^verbatim>\<open>null\<close> or \<^verbatim>\<open>undefined\<close>.
\<close>

definition message_of :: "'s env \<Rightarrow> thrown \<Rightarrow> thrown + string" where
  "message_of env error =
     (case error of
        Error m \<Rightarrow> Inr m
      | TypeError f \<Rightarrow> Inr (type_error_message env f)
      | Value v \<Rightarrow> and_then (get_prop v ''message'') to_string)"

definition call_composeState :: "'s env \<Rightarrow> memory \<Rightarrow> 's comp" where
  "call_composeState env message = ([ComposeState], composeState env message)"

definition call_updateRecentMessageState :: "'s env \<Rightarrow> 's \<Rightarrow> 's comp" where
  "call_updateRecentMessageState env st =
     ([UpdateRecentMessageState], updateRecentMessageState env st)"

definition call_generateObjectDeprecated :: "'s env \<Rightarrow> string \<Rightarrow> jsval comp" where
  "call_generateObjectDeprecated env context =
     ([GenerateObject context], generateObjectDeprecated env context)"

definition request_headers :: "'s env \<Rightarrow> (string \<times> string) list" where
  "request_headers env =
     [(''x-rapidapi-host'', RAPID_API_HOST),
      (''x-rapidapi-key'', (case RAPID_API_KEY env of None \<Rightarrow> [] | Some k \<Rightarrow> k))]"

definition call_fetch :: "'s env \<Rightarrow> string \<Rightarrow> http_response comp" where
  "call_fetch env url = ([Fetch url (request_headers env)], fetch env url (request_headers env))"

text \<open>Lines 87-92 and 322-327: compose the state if none was given, refresh it otherwise.\<close>

definition ensure_state :: "'s env \<Rightarrow> memory \<Rightarrow> 's option \<Rightarrow> 's comp" where
  "ensure_state env message state =
     (case state of
        None \<Rightarrow> call_composeState env message
      | Some st \<Rightarrow> call_updateRecentMessageState env st)"

text \<open>
  Lines 128-136 and 362-370: read the body as text, then parse it; a parse failure logs the
  raw body and throws.
\<close>

definition read_json :: "'s env \<Rightarrow> http_response \<Rightarrow> json comp" where
  "read_json env response =
     bnd (lift (body_text response)) (\<lambda>responseText.
       (case JSON_parse env responseText of
          Inl e_message \<Rightarrow>
            bnd (emit (LogError ''Failed to parse response:'' (LStr responseText))) (\<lambda>_.
              throw (Error (''Failed to parse API response: '' @ e_message)))
        | Inr data \<Rightarrow> ret data))"

text \<open>Lines 138-141 and 372-375: a status outside the success range throws.\<close>

definition check_ok :: "'s env \<Rightarrow> http_response \<Rightarrow> json \<Rightarrow> unit comp" where
  "check_ok env response data =
     (if \<not> ok response then
        bnd (emit (LogError ''API Error Response:'' (LVal (Some data)))) (\<lambda>_.
          throw (Error (''API request failed with status '' @ show_nat (status response)
                          @ '': '' @ JSON_stringify env data)))
      else ret ())"

subsection \<open>LIBRARY_SEARCH\<close>

text \<open>
  Lines 150-154, the body of the arrow function given to \<^verbatim>\<open>data.books.map\<close>: one entry of
  the result list. The template literals are evaluated left to right.
\<close>

definition format_book :: "json \<Rightarrow> thrown + string" where
  "format_book book =
     and_then (and_then (get_prop (Some book) ''title'') to_string) (\<lambda>title.
     and_then (get_prop (Some book) ''author'') (\<lambda>author.
     and_then (if truthy author then and_then (to_string author) (\<lambda>a. Inr ('' by '' @ a))
               else Inr '''') (\<lambda>by_author.
     and_then (get_prop (Some book) ''year'') (\<lambda>year.
     and_then (if truthy year then and_then (to_string year) (\<lambda>y. Inr ('' ('' @ y @ '')''))
               else Inr '''') (\<lambda>in_year.
     and_then (and_then (get_prop (Some book) ''format'') to_string) (\<lambda>format.
     and_then (and_then (get_prop (Some book) ''size'') to_string) (\<lambda>size.
     and_then (get_prop (Some book) ''genre'') (\<lambda>genre.
     and_then (if truthy genre then to_string genre else Inr ''Unknown'') (\<lambda>genre_or_unknown.
     and_then (and_then (get_prop (Some book) ''md5'') to_string) (\<lambda>md5.
       Inr (''\"'' @ title @ ''\"'' @ by_author @ in_year @ ''\<newline>'' @
            ''Format: '' @ format @ '', Size: '' @ size @ '', Genre: '' @ genre_or_unknown
              @ ''\<newline>'' @
            ''MD5: '' @ md5)))))))))))"

text \<open>Line 145: \<^verbatim>\<open>!data.books || data.books.length === 0\<close>.\<close>

definition falsy_or_empty :: "jsval \<Rightarrow> thrown + bool" where
  "falsy_or_empty v =
     (if \<not> truthy v then Inr True
      else and_then (get_prop v ''length'') (\<lambda>len. Inr (len = Some (JNum ''0''))))"

text \<open>
  Lines 143-158: what the handler does with the parsed body of a successful response.
  Here and below \<open>callback\<close> is the fifth argument of the handler.
\<close>

definition search_render_with :: "(string \<Rightarrow> thrown + unit) \<Rightarrow> json \<Rightarrow> unit comp" where
  "search_render_with callback data =
     bnd (emit (Log ''Search results:'' (LVal (Some data)))) (\<lambda>_.
     bnd (lift (get_prop (Some data) ''books'')) (\<lambda>books.
     bnd (lift (falsy_or_empty books)) (\<lambda>no_results.
       if no_results then
         call_callback callback
           ''No results found. Try modifying your search terms or using fewer filters.''
       else
         bnd (lift (call_map books (\<lambda>book index. format_book book))) (\<lambda>entries.
         bnd (lift (and_then (get_prop (Some data) ''total'') to_string)) (\<lambda>total.
         bnd (lift (and_then (get_prop books ''length'') to_string)) (\<lambda>count.
           call_callback callback
             (''Found '' @ total @ '' books. Here are the top '' @ count
                @ '' results:\<newline>\<newline>'' @ join ''\<newline>\<newline>'' entries
                @ ''\<newline>\<newline>To download a book, ask me using its MD5 hash.'')))))))"

text \<open>Lines 128-158: the processing of the response of the search endpoint.\<close>

definition search_process_with ::
  "(string \<Rightarrow> thrown + unit) \<Rightarrow> 's env \<Rightarrow> http_response \<Rightarrow> unit comp" where
  "search_process_with callback env apiResponse =
     bnd (read_json env apiResponse) (\<lambda>data.
     bnd (check_ok env apiResponse data) (\<lambda>_.
       search_render_with callback data))"

definition search_url :: "'s env \<Rightarrow> string \<Rightarrow> string" where
  "search_url env q =
     ''https://'' @ RAPID_API_HOST @ ''/search?'' @
       ''q='' @ form_urlencode env q @ ''&limit=10&sort=mostRelevant''"

text \<open>Lines 87-126: from the message to the response of the search endpoint.\<close>

definition search_request :: "'s env \<Rightarrow> memory \<Rightarrow> 's option \<Rightarrow> http_response comp" where
  "search_request env message state =
     bnd (ensure_state env message state) (\<lambda>state.
     let searchContext = composeContext env state (Some (content_text message)) SEARCH_TEMPLATE in
     bnd (call_generateObjectDeprecated env searchContext) (\<lambda>content.
     bnd (lift (opt_prop content ''searchTerm'')) (\<lambda>searchTerm.
       if \<not> truthy searchTerm then throw (Error ''No search term found in response'')
       else
         bnd (emit (Log ''Searching for:'' (LVal searchTerm))) (\<lambda>_.
         bnd (lift (to_string searchTerm)) (\<lambda>q.
         let url = search_url env q in
         bnd (emit (Log ''Search URL:'' (LStr url))) (\<lambda>_.
           call_fetch env url))))))"

text \<open>Lines 81-158: the body of the \<^verbatim>\<open>try\<close> block.\<close>

definition search_try_with ::
  "(string \<Rightarrow> thrown + unit) \<Rightarrow> 's env \<Rightarrow> memory \<Rightarrow> 's option \<Rightarrow> unit comp" where
  "search_try_with callback env message state =
     (if \<not> key_configured env then
        call_callback callback ''Error: RAPID_API_KEY is not configured''
      else bnd (search_request env message state) (search_process_with callback env))"

text \<open>
  Lines 159-162: the \<^verbatim>\<open>catch\<close> block. It logs the caught value, reads its message and
  calls the callback; the last two steps can throw in their turn.
\<close>

definition search_catch_with ::
  "(string \<Rightarrow> thrown + unit) \<Rightarrow> 's env \<Rightarrow> thrown \<Rightarrow> unit comp" where
  "search_catch_with callback env error =
     bnd (emit (LogError ''Library search error:'' (LThrown error))) (\<lambda>_.
     bnd (lift (message_of env error)) (\<lambda>error_message.
       call_callback callback
         (''Sorry, I'' @ [CHR 0x27] @ ''m having trouble with the search: '' @ error_message)))"

definition LIBRARY_SEARCH_handler_with ::
  "(string \<Rightarrow> thrown + unit) \<Rightarrow> 's env \<Rightarrow> memory \<Rightarrow> 's option \<Rightarrow> unit comp" where
  "LIBRARY_SEARCH_handler_with callback env message state =
     try_catch (search_try_with callback env message state) (search_catch_with callback env)"

subsection \<open>LIBRARY_DOWNLOAD\<close>

text \<open>
  Line 330, \<^verbatim>\<open>text.match(/[a-f0-9]{32}/)?.[0]\<close>: the regular expression is tried at each
  position from the left, and the first position where 32 characters of the class follow
  gives the match. The characters of the class are ASCII, so the match is the same whether
  the text is read as UTF-16 code units or as bytes of UTF-8.
\<close>

definition lower_hex :: "char \<Rightarrow> bool" where
  "lower_hex c = (c \<in> set ''abcdef0123456789'')"

definition hex32_here :: "string \<Rightarrow> bool" where
  "hex32_here s = (32 \<le> length s \<and> list_all lower_hex (take 32 s))"

fun match_hex32 :: "string \<Rightarrow> string option" where
  "match_hex32 [] = None"
| "match_hex32 (c # cs) =
     (if hex32_here (c # cs) then Some (take 32 (c # cs)) else match_hex32 cs)"

definition download_url :: "string \<Rightarrow> string" where
  "download_url md5 = ''https://'' @ RAPID_API_HOST @ ''/download?md5='' @ md5"

text \<open>Lines 333-350: the hash is asked of the extractor.\<close>

definition extract_md5_with :: "(string \<Rightarrow> thrown + unit) \<Rightarrow> 's env \<Rightarrow> 's \<Rightarrow> jsval comp" where
  "extract_md5_with callback env state =
     (let downloadContext = composeContext env state None DOWNLOAD_TEMPLATE in
      bnd (call_generateObjectDeprecated env downloadContext) (\<lambda>content.
      bnd (lift (opt_prop content ''md5'')) (\<lambda>md5.
        if \<not> truthy md5 then
          throw (Error ''Could not find the MD5 hash for the requested book'')
        else
          bnd (lift (and_then (get_prop content ''title'') to_string)) (\<lambda>title.
          bnd (lift (and_then (get_prop content ''author'') to_string)) (\<lambda>author.
          bnd (call_callback callback
                 (''Downloading \"'' @ title @ ''\" by '' @ author @ ''...'')) (\<lambda>_.
            ret md5))))))"

text \<open>Lines 329-351: the hash in the text of the message wins; otherwise the extractor.\<close>

definition resolve_md5_with ::
  "(string \<Rightarrow> thrown + unit) \<Rightarrow> 's env \<Rightarrow> memory \<Rightarrow> 's \<Rightarrow> jsval comp" where
  "resolve_md5_with callback env message state =
     (let directHash = map_option JStr (match_hex32 (content_text message)) in
      if truthy directHash then ret directHash
      else extract_md5_with callback env state)"

text \<open>Lines 322-360: from the message to the response of the download endpoint.\<close>

definition download_request_with ::
  "(string \<Rightarrow> thrown + unit) \<Rightarrow> 's env \<Rightarrow> memory \<Rightarrow> 's option \<Rightarrow> http_response comp" where
  "download_request_with callback env message state =
     bnd (ensure_state env message state) (\<lambda>state.
     bnd (resolve_md5_with callback env message state) (\<lambda>md5.
     bnd (lift (to_string md5)) (\<lambda>md5_text.
       call_fetch env (download_url md5_text))))"

text \<open>Line 382: one numbered line of the list of links.\<close>

definition format_link :: "json \<Rightarrow> nat \<Rightarrow> thrown + string" where
  "format_link link index =
     and_then (to_string (Some link)) (\<lambda>l. Inr (show_nat (index + 1) @ ''. '' @ l))"

text \<open>Lines 377-385: what the handler does with the parsed body of a successful response.\<close>

definition download_render_with :: "(string \<Rightarrow> thrown + unit) \<Rightarrow> json \<Rightarrow> unit comp" where
  "download_render_with callback links =
     bnd (lift (falsy_or_empty (Some links))) (\<lambda>no_links.
       if no_links then call_callback callback ''No download links found for this book.''
       else
         bnd (lift (call_map (Some links) format_link)) (\<lambda>entries.
           call_callback callback
             (''Here are the download links for the book:\<newline>\<newline>''
                @ join ''\<newline>'' entries)))"

text \<open>Lines 362-385: the processing of the response of the download endpoint.\<close>

definition download_process_with ::
  "(string \<Rightarrow> thrown + unit) \<Rightarrow> 's env \<Rightarrow> http_response \<Rightarrow> unit comp" where
  "download_process_with callback env response =
     bnd (read_json env response) (\<lambda>links.
     bnd (check_ok env response links) (\<lambda>_.
       download_render_with callback links))"

text \<open>Lines 316-385: the body of the \<^verbatim>\<open>try\<close> block.\<close>

definition download_try_with ::
  "(string \<Rightarrow> thrown + unit) \<Rightarrow> 's env \<Rightarrow> memory \<Rightarrow> 's option \<Rightarrow> unit comp" where
  "download_try_with callback env message state =
     (if \<not> key_configured env then
        call_callback callback ''Error: RAPID_API_KEY is not configured''
      else bnd (download_request_with callback env message state)
             (download_process_with callback env))"

text \<open>Lines 386-389: the \<^verbatim>\<open>catch\<close> block.\<close>

definition download_catch_with ::
  "(string \<Rightarrow> thrown + unit) \<Rightarrow> 's env \<Rightarrow> thrown \<Rightarrow> unit comp" where
  "download_catch_with callback env error =
     bnd (emit (LogError ''Library download error:'' (LThrown error))) (\<lambda>_.
     bnd (lift (message_of env error)) (\<lambda>error_message.
       call_callback callback
         (''Sorry, I'' @ [CHR 0x27] @ ''m having trouble getting the download links: ''
            @ error_message)))"

definition LIBRARY_DOWNLOAD_handler_with ::
  "(string \<Rightarrow> thrown + unit) \<Rightarrow> 's env \<Rightarrow> memory \<Rightarrow> 's option \<Rightarrow> unit comp" where
  "LIBRARY_DOWNLOAD_handler_with callback env message state =
     try_catch (download_try_with callback env message state)
       (download_catch_with callback env)"

subsection \<open>A host whose callback returns\<close>

text \<open>
  What the handlers do when the callback of the host returns on every call: the setting
  of every statement below that does not name a callback.
\<close>

definition returning :: "string \<Rightarrow> thrown + unit" where
  "returning txt = Inr ()"

abbreviation search_render :: "json \<Rightarrow> unit comp" where
  "search_render \<equiv> search_render_with returning"

abbreviation search_process :: "'s env \<Rightarrow> http_response \<Rightarrow> unit comp" where
  "search_process \<equiv> search_process_with returning"

abbreviation search_try :: "'s env \<Rightarrow> memory \<Rightarrow> 's option \<Rightarrow> unit comp" where
  "search_try \<equiv> search_try_with returning"

abbreviation search_catch :: "'s env \<Rightarrow> thrown \<Rightarrow> unit comp" where
  "search_catch \<equiv> search_catch_with returning"

abbreviation LIBRARY_SEARCH_handler :: "'s env \<Rightarrow> memory \<Rightarrow> 's option \<Rightarrow> unit comp" where
  "LIBRARY_SEARCH_handler \<equiv> LIBRARY_SEARCH_handler_with returning"

abbreviation extract_md5 :: "'s env \<Rightarrow> 's \<Rightarrow> jsval comp" where
  "extract_md5 \<equiv> extract_md5_with returning"

abbreviation resolve_md5 :: "'s env \<Rightarrow> memory \<Rightarrow> 's \<Rightarrow> jsval comp" where
  "resolve_md5 \<equiv> resolve_md5_with returning"

abbreviation download_request :: "'s env \<Rightarrow> memory \<Rightarrow> 's option \<Rightarrow> http_response comp" where
  "download_request \<equiv> download_request_with returning"

abbreviation download_render :: "json \<Rightarrow> unit comp" where
  "download_render \<equiv> download_render_with returning"

abbreviation download_process :: "'s env \<Rightarrow> http_response \<Rightarrow> unit comp" where
  "download_process \<equiv> download_process_with returning"

abbreviation download_try :: "'s env \<Rightarrow> memory \<Rightarrow> 's option \<Rightarrow> unit comp" where
  "download_try \<equiv> download_try_with returning"

abbreviation download_catch :: "'s env \<Rightarrow> thrown \<Rightarrow> unit comp" where
  "download_catch \<equiv> download_catch_with returning"

abbreviation LIBRARY_DOWNLOAD_handler :: "'s env \<Rightarrow> memory \<Rightarrow> 's option \<Rightarrow> unit comp" where
  "LIBRARY_DOWNLOAD_handler \<equiv> LIBRARY_DOWNLOAD_handler_with returning"

subsection \<open>Projections of a trace\<close>

fun extractor_calls :: "event list \<Rightarrow> string list" where
  "extractor_calls [] = []"
| "extractor_calls (GenerateObject context # evs) = context # extractor_calls evs"
| "extractor_calls (ev # evs) = extractor_calls evs"

fun network_calls :: "event list \<Rightarrow> string list" where
  "network_calls [] = []"
| "network_calls (Fetch url headers # evs) = url # network_calls evs"
| "network_calls (ev # evs) = network_calls evs"

fun callbacks :: "event list \<Rightarrow> string list" where
  "callbacks [] = []"
| "callbacks (Callback txt # evs) = txt # callbacks evs"
| "callbacks (ev # evs) = callbacks evs"

text \<open>The events of a trace that come before its first network call.\<close>

fun is_network_call :: "event \<Rightarrow> bool" where
  "is_network_call (Fetch url headers) = True"
| "is_network_call ev = False"

definition before_network :: "event list \<Rightarrow> event list" where
  "before_network evs = takeWhile (\<lambda>ev. \<not> is_network_call ev) evs"

subsection \<open>A host for concrete runs\<close>

text \<open>
  A host whose runtime always succeeds, whose extractor answers \<open>extracted\<close>, whose service
  answers \<open>response\<close> and whose \<^verbatim>\<open>JSON.parse\<close> reads the body of that response as \<open>parsed\<close>.
\<close>

definition stub_env ::
  "string option \<Rightarrow> thrown + jsval \<Rightarrow> http_response \<Rightarrow> string + json \<Rightarrow> unit env" where
  "stub_env key extracted response parsed =
     \<lparr> RAPID_API_KEY = key,
       composeState = (\<lambda>message. Inr ()),
       updateRecentMessageState = (\<lambda>state. Inr ()),
       composeContext = (\<lambda>state query template.
          (case query of None \<Rightarrow> ''recent messages'' | Some q \<Rightarrow> q)),
       generateObjectDeprecated = (\<lambda>context. extracted),
       form_urlencode = map (\<lambda>c. if c = CHR '' '' then CHR ''+'' else c),
       fetch = (\<lambda>url headers. Inr response),
       JSON_parse = (\<lambda>body. parsed),
       JSON_stringify = (\<lambda>data. ''{}''),
       type_error_message = (\<lambda>f. ''type error'') \<rparr>"

definition respond :: "bool \<Rightarrow> nat \<Rightarrow> string \<Rightarrow> http_response" where
  "respond is_ok code body = \<lparr> ok = is_ok, status = code, body_text = Inr body \<rparr>"

subsection \<open>The vocabulary of the specification\<close>

text \<open>The text contains a 32-character lowercase hexadecimal substring.\<close>

definition contains_hex32 :: "string \<Rightarrow> bool" where
  "contains_hex32 s =
     (\<exists>pre h post. s = pre @ h @ post \<and> length h = 32 \<and> list_all lower_hex h)"

text \<open>An uppercase hexadecimal digit, which the character class of line 330 leaves out.\<close>

definition upper_hex :: "char \<Rightarrow> bool" where
  "upper_hex c = (c \<in> set ''ABCDEF'')"

text \<open>
  The declared shape of a search response (\<^verbatim>\<open>AnnaArchiveResponse\<close>, \<^verbatim>\<open>AnnaArchiveBook\<close>),
  restricted to the fields the handler reads. The fields that the handler tests before it
  prints them (\<^verbatim>\<open>author\<close>, \<^verbatim>\<open>year\<close>, \<^verbatim>\<open>genre\<close>) may be absent or \<^verbatim>\<open>null\<close>.
\<close>

record AnnaArchiveBook =
  title :: string
  author :: "string option"
  md5 :: string
  file_size :: string
  genre :: "string option"
  format :: string
  year :: "string option"

record AnnaArchiveResponse =
  total :: nat
  books :: "AnnaArchiveBook list"

definition required_string :: "(string \<times> json) list \<Rightarrow> string \<Rightarrow> string option" where
  "required_string kvs k = (case map_of kvs k of Some (JStr s) \<Rightarrow> Some s | _ \<Rightarrow> None)"

definition optional_string :: "(string \<times> json) list \<Rightarrow> string \<Rightarrow> string option option" where
  "optional_string kvs k =
     (case map_of kvs k of
        None \<Rightarrow> Some None
      | Some JNull \<Rightarrow> Some None
      | Some (JStr s) \<Rightarrow> Some (Some s)
      | _ \<Rightarrow> None)"

fun as_book :: "json \<Rightarrow> AnnaArchiveBook option" where
  "as_book (JObj kvs) =
     Option.bind (required_string kvs ''title'') (\<lambda>t.
     Option.bind (optional_string kvs ''author'') (\<lambda>a.
     Option.bind (required_string kvs ''md5'') (\<lambda>m.
     Option.bind (required_string kvs ''size'') (\<lambda>s.
     Option.bind (optional_string kvs ''genre'') (\<lambda>g.
     Option.bind (required_string kvs ''format'') (\<lambda>f.
     Option.bind (optional_string kvs ''year'') (\<lambda>y.
       Some \<lparr> title = t, author = a, md5 = m, file_size = s, genre = g, format = f,
              year = y \<rparr>)))))))"
| "as_book other = None"

text \<open>The number that a string of decimal digits denotes.\<close>

definition decimal_value :: "string \<Rightarrow> nat" where
  "decimal_value s = foldl (\<lambda>a c. 10 * a + (of_char c - 48)) 0 s"

text \<open>
  A well-formed response: \<^verbatim>\<open>total\<close> is a natural number below \<open>10\<^sup>2\<^sup>1\<close> (its printed form is
  its decimal numeral), and \<^verbatim>\<open>books\<close> is an array, of fewer than \<open>2\<^sup>3\<^sup>2\<close> well-formed books.
\<close>

fun as_response :: "json \<Rightarrow> AnnaArchiveResponse option" where
  "as_response (JObj kvs) =
     (case (map_of kvs ''total'', map_of kvs ''books'') of
        (Some (JNum printed), Some (JArr js)) \<Rightarrow>
          if show_nat (decimal_value printed) = printed \<and> decimal_value printed < 10 ^ 21
             \<and> length js < 2 ^ 32
          then map_option (\<lambda>bs. \<lparr> total = decimal_value printed, books = bs \<rparr>)
                 (those (map as_book js))
          else None
      | _ \<Rightarrow> None)"
| "as_response other = None"

text \<open>One entry of the rendered list: optional fields are left out when absent or empty.\<close>

definition shown :: "string option \<Rightarrow> bool" where
  "shown field = (case field of None \<Rightarrow> False | Some s \<Rightarrow> s \<noteq> [])"

definition render_book :: "AnnaArchiveBook \<Rightarrow> string" where
  "render_book b =
     ''\"'' @ title b @ ''\"''
       @ (if shown (author b) then '' by '' @ the (author b) else [])
       @ (if shown (year b) then '' ('' @ the (year b) @ '')'' else [])
       @ ''\<newline>''
       @ ''Format: '' @ format b @ '', Size: '' @ file_size b @ '', Genre: ''
       @ (if shown (genre b) then the (genre b) else ''Unknown'')
       @ ''\<newline>''
       @ ''MD5: '' @ md5 b"

section \<open>Laws of the embedding\<close>

subsection \<open>Sequencing\<close>

lemma trace_bnd:
  "trace (bnd m f) = trace m @ (case outcome m of Inl e \<Rightarrow> [] | Inr a \<Rightarrow> trace (f a))"
  by (cases m; cases "snd m") (auto simp: bnd_def trace_def outcome_def split: prod.splits)

lemma outcome_bnd:
  "outcome (bnd m f) = (case outcome m of Inl e \<Rightarrow> Inl e | Inr a \<Rightarrow> outcome (f a))"
  by (cases m; cases "snd m") (auto simp: bnd_def outcome_def split: prod.splits)

lemma comp_eqI: "trace m = trace m' \<Longrightarrow> outcome m = outcome m' \<Longrightarrow> m = m'"
  by (simp add: trace_def outcome_def prod_eq_iff)

lemma trace_simps [simp]:
  "trace (ret a) = []"
  "trace (throw e) = []"
  "trace (emit ev) = [ev]"
  "trace (lift r) = []"
  "trace (call_callback callback txt) = [Callback txt]"
  "trace (tr, r) = tr"
  by (simp_all add: trace_def ret_def throw_def emit_def lift_def call_callback_def)

lemma outcome_simps [simp]:
  "outcome (ret a) = Inr a"
  "outcome (throw e) = Inl e"
  "outcome (emit ev) = Inr ()"
  "outcome (lift r) = r"
  "outcome (call_callback callback txt) = callback txt"
  "outcome (tr, r) = r"
  by (simp_all add: outcome_def ret_def throw_def emit_def lift_def call_callback_def)

lemma returning_simp [simp]: "returning txt = Inr ()"
  by (simp add: returning_def)

lemma trace_try_catch:
  "trace (try_catch body handler) =
     trace body @ (case outcome body of Inl e \<Rightarrow> trace (handler e) | Inr u \<Rightarrow> [])"
  by (cases body; cases "snd body")
     (auto simp: try_catch_def trace_def outcome_def split: prod.splits)

lemma outcome_try_catch:
  "outcome (try_catch body handler) =
     (case outcome body of Inl e \<Rightarrow> outcome (handler e) | Inr u \<Rightarrow> Inr u)"
  by (cases body; cases "snd body")
     (auto simp: try_catch_def outcome_def split: prod.splits)

lemma try_catch_thrown:
  assumes "outcome body = Inl error"
  shows "try_catch body handler = (trace body @ trace (handler error), outcome (handler error))"
  using assms
  by (cases body; cases "handler error") (simp add: try_catch_def trace_def outcome_def)

lemma try_catch_returned:
  assumes "outcome body = Inr u"
  shows "try_catch body handler = body"
  using assms by (cases body) (simp add: try_catch_def outcome_def)

lemma bnd_ret: "bnd (ret a) f = f a"
  by (cases "f a") (simp add: bnd_def ret_def)

lemma bnd_failed: "bnd (tr, Inl e) f = (tr, Inl e)"
  by (simp add: bnd_def)

subsection \<open>Projections of a trace\<close>

lemma extractor_calls_append [simp]:
  "extractor_calls (xs @ ys) = extractor_calls xs @ extractor_calls ys"
  by (induction xs rule: extractor_calls.induct) simp_all

lemma network_calls_append [simp]:
  "network_calls (xs @ ys) = network_calls xs @ network_calls ys"
  by (induction xs rule: network_calls.induct) simp_all

lemma callbacks_append [simp]:
  "callbacks (xs @ ys) = callbacks xs @ callbacks ys"
  by (induction xs rule: callbacks.induct) simp_all

lemma extractor_calls_empty_iff:
  "extractor_calls evs = [] \<longleftrightarrow> (\<forall>context. GenerateObject context \<notin> set evs)"
  by (induction evs rule: extractor_calls.induct) auto

lemma network_calls_member:
  "url \<in> set (network_calls evs) \<longleftrightarrow> (\<exists>headers. Fetch url headers \<in> set evs)"
  by (induction evs rule: network_calls.induct) auto

lemma network_calls_empty_iff: "network_calls evs = [] \<longleftrightarrow> (\<forall>ev\<in>set evs. \<not> is_network_call ev)"
  by (induction evs rule: network_calls.induct) simp_all

lemma before_network_first:
  assumes "network_calls evs = []"
  shows "before_network (evs @ Fetch url headers # after) = evs"
  using assms by (simp add: before_network_def network_calls_empty_iff takeWhile_append2)

subsection \<open>The pattern\<close>

text \<open>
  A window is a position of the text where 32 characters of the class follow. The
  matcher returns the window at the first such position.
\<close>

lemma hex32_here_iff:
  "hex32_here s \<longleftrightarrow> (\<exists>h post. s = h @ post \<and> length h = 32 \<and> list_all lower_hex h)"
proof
  assume "hex32_here s"
  then have "s = take 32 s @ drop 32 s \<and> length (take 32 s) = 32 \<and> list_all lower_hex (take 32 s)"
    by (simp add: hex32_here_def)
  then show "\<exists>h post. s = h @ post \<and> length h = 32 \<and> list_all lower_hex h"
    by blast
next
  assume "\<exists>h post. s = h @ post \<and> length h = 32 \<and> list_all lower_hex h"
  then show "hex32_here s"
    by (auto simp: hex32_here_def)
qed

lemma hex32_here_nth:
  "hex32_here (drop i s) \<longleftrightarrow> i + 32 \<le> length s \<and> (\<forall>k<32. lower_hex (s ! (i + k)))"
  by (auto simp: hex32_here_def list_all_length)

lemma match_hex32_None_iff: "match_hex32 s = None \<longleftrightarrow> (\<forall>i. \<not> hex32_here (drop i s))"
proof (induction s)
  case Nil
  show ?case by (simp add: hex32_here_def)
next
  case (Cons c cs)
  have "(\<forall>i. \<not> hex32_here (drop i (c # cs)))
          \<longleftrightarrow> \<not> hex32_here (c # cs) \<and> (\<forall>j. \<not> hex32_here (drop j cs))"
  proof
    assume all: "\<forall>i. \<not> hex32_here (drop i (c # cs))"
    have "\<not> hex32_here (c # cs)" using all [rule_format, of 0] by simp
    moreover have "\<not> hex32_here (drop j cs)" for j using all [rule_format, of "Suc j"] by simp
    ultimately show "\<not> hex32_here (c # cs) \<and> (\<forall>j. \<not> hex32_here (drop j cs))" by blast
  next
    assume both: "\<not> hex32_here (c # cs) \<and> (\<forall>j. \<not> hex32_here (drop j cs))"
    show "\<forall>i. \<not> hex32_here (drop i (c # cs))"
    proof
      fix i show "\<not> hex32_here (drop i (c # cs))"
        using both by (cases i) simp_all
    qed
  qed
  with Cons show ?case by simp
qed

lemma match_hex32_Some_iff:
  "match_hex32 s = Some h \<longleftrightarrow>
     (\<exists>i. hex32_here (drop i s) \<and> (\<forall>j<i. \<not> hex32_here (drop j s)) \<and> h = take 32 (drop i s))"
proof (induction s)
  case Nil
  show ?case by (simp add: hex32_here_def)
next
  case (Cons c cs)
  show ?case
  proof (cases "hex32_here (c # cs)")
    case True
    have "(\<exists>i. hex32_here (drop i (c # cs)) \<and> (\<forall>j<i. \<not> hex32_here (drop j (c # cs)))
              \<and> h = take 32 (drop i (c # cs))) \<longleftrightarrow> h = take 32 (c # cs)"
    proof
      assume "\<exists>i. hex32_here (drop i (c # cs)) \<and> (\<forall>j<i. \<not> hex32_here (drop j (c # cs)))
              \<and> h = take 32 (drop i (c # cs))"
      then obtain i where i: "\<forall>j<i. \<not> hex32_here (drop j (c # cs))" "h = take 32 (drop i (c # cs))"
        by blast
      have "i = 0"
      proof (rule ccontr)
        assume "i \<noteq> 0"
        then have "\<not> hex32_here (drop 0 (c # cs))" using i(1) by blast
        with True show False by simp
      qed
      with i(2) show "h = take 32 (c # cs)" by simp
    next
      assume "h = take 32 (c # cs)"
      with True have "hex32_here (drop 0 (c # cs)) \<and> (\<forall>j<0. \<not> hex32_here (drop j (c # cs)))
              \<and> h = take 32 (drop 0 (c # cs))" by simp
      then show "\<exists>i. hex32_here (drop i (c # cs)) \<and> (\<forall>j<i. \<not> hex32_here (drop j (c # cs)))
              \<and> h = take 32 (drop i (c # cs))" by blast
    qed
    with True show ?thesis by auto
  next
    case False
    have "(\<exists>i. hex32_here (drop i (c # cs)) \<and> (\<forall>j<i. \<not> hex32_here (drop j (c # cs)))
              \<and> h = take 32 (drop i (c # cs)))
          \<longleftrightarrow> (\<exists>i. hex32_here (drop i cs) \<and> (\<forall>j<i. \<not> hex32_here (drop j cs))
              \<and> h = take 32 (drop i cs))" (is "?L \<longleftrightarrow> ?R")
    proof
      assume ?L
      then obtain i where i: "hex32_here (drop i (c # cs))"
          "\<forall>j<i. \<not> hex32_here (drop j (c # cs))" "h = take 32 (drop i (c # cs))"
        by blast
      from i(1) False obtain k where k: "i = Suc k" by (cases i) simp_all
      have "\<not> hex32_here (drop j cs)" if "j < k" for j
        using i(2) [rule_format, of "Suc j"] that k by simp
      with i(1,3) k show ?R by auto
    next
      assume ?R
      then obtain k where k: "hex32_here (drop k cs)"
          "\<forall>j<k. \<not> hex32_here (drop j cs)" "h = take 32 (drop k cs)"
        by blast
      have "\<not> hex32_here (drop j (c # cs))" if "j < Suc k" for j
        using that False k(2) by (cases j) simp_all
      with k(1,3) have "hex32_here (drop (Suc k) (c # cs))
          \<and> (\<forall>j<Suc k. \<not> hex32_here (drop j (c # cs))) \<and> h = take 32 (drop (Suc k) (c # cs))"
        by simp
      then show ?L by blast
    qed
    with False Cons show ?thesis by simp
  qed
qed

lemma contains_hex32_iff_window: "contains_hex32 s \<longleftrightarrow> (\<exists>i. hex32_here (drop i s))"
proof
  assume "contains_hex32 s"
  then obtain pre h post where "s = pre @ h @ post" "length h = 32" "list_all lower_hex h"
    by (auto simp: contains_hex32_def)
  then have "hex32_here (drop (length pre) s)"
    by (auto simp: hex32_here_iff)
  then show "\<exists>i. hex32_here (drop i s)" ..
next
  assume "\<exists>i. hex32_here (drop i s)"
  then obtain i where "hex32_here (drop i s)" ..
  then obtain h post where "drop i s = h @ post" "length h = 32" "list_all lower_hex h"
    by (auto simp: hex32_here_iff)
  moreover have "s = take i s @ drop i s" by simp
  ultimately have "s = take i s @ h @ post \<and> length h = 32 \<and> list_all lower_hex h" by simp
  then show "contains_hex32 s" unfolding contains_hex32_def by blast
qed

lemma contains_hex32_iff_match: "contains_hex32 s \<longleftrightarrow> match_hex32 s \<noteq> None"
  by (simp add: contains_hex32_iff_window match_hex32_None_iff)

lemma match_hex32_is_substring:
  assumes "match_hex32 s = Some h"
  shows "\<exists>pre post. s = pre @ h @ post \<and> length h = 32 \<and> list_all lower_hex h"
proof -
  from assms obtain i where i: "hex32_here (drop i s)" "h = take 32 (drop i s)"
    by (auto simp: match_hex32_Some_iff)
  then have "length h = 32" "list_all lower_hex h" by (simp_all add: hex32_here_def)
  moreover have "s = take i s @ (take 32 (drop i s) @ drop 32 (drop i s))"
    unfolding append_take_drop_id by simp
  then have "s = take i s @ h @ drop 32 (drop i s)" using i(2) by simp
  ultimately show ?thesis by blast
qed

lemma match_hex32_first:
  assumes "match_hex32 s = Some h"
  shows "\<exists>pre post. s = pre @ h @ post \<and> length h = 32 \<and> list_all lower_hex h
           \<and> (\<forall>pre' h' post'. s = pre' @ h' @ post' \<and> length h' = 32 \<and> list_all lower_hex h'
                 \<longrightarrow> length pre \<le> length pre')"
proof -
  from assms obtain i where i: "hex32_here (drop i s)" "\<forall>j<i. \<not> hex32_here (drop j s)"
      "h = take 32 (drop i s)"
    by (auto simp: match_hex32_Some_iff)
  from i(1) have len: "i + 32 \<le> length s" by (simp add: hex32_here_nth)
  from i(1,3) have h: "length h = 32" "list_all lower_hex h" by (simp_all add: hex32_here_def)
  have "s = take i s @ (take 32 (drop i s) @ drop 32 (drop i s))"
    unfolding append_take_drop_id by simp
  then have split: "s = take i s @ h @ drop 32 (drop i s)" using i(3) by simp
  have first: "length (take i s) \<le> length pre'"
    if "s = pre' @ h' @ post'" "length h' = 32" "list_all lower_hex h'" for pre' h' post'
  proof -
    from that have "hex32_here (drop (length pre') s)" by (auto simp: hex32_here_iff)
    with i(2) have "\<not> length pre' < i" by blast
    with len show ?thesis by simp
  qed
  from split h first show ?thesis by blast
qed

lemma no_window_in_prefix:
  assumes "\<not> contains_hex32 pre" and "pre = [] \<or> \<not> lower_hex (last pre)"
    and "j < length pre"
  shows "\<not> hex32_here (drop j (pre @ rest))"
proof
  assume window: "hex32_here (drop j (pre @ rest))"
  then have chars: "\<forall>k<32. lower_hex ((pre @ rest) ! (j + k))"
    using hex32_here_nth [of j "pre @ rest"] by blast
  show False
  proof (cases "j + 32 \<le> length pre")
    case True
    then have "\<forall>k<32. (pre @ rest) ! (j + k) = pre ! (j + k)"
      by (simp add: nth_append)
    with chars True have "hex32_here (drop j pre)"
      by (simp add: hex32_here_nth)
    with assms(1) show False
      by (auto simp: contains_hex32_iff_window)
  next
    case False
    define k where "k = length pre - 1 - j"
    from False assms(3) have k: "k < 32" "j + k = length pre - 1"
      by (simp_all add: k_def)
    from assms(3) have "pre \<noteq> []" by auto
    then have "(pre @ rest) ! (j + k) = last pre"
      using k(2) by (simp add: nth_append last_conv_nth)
    with chars k(1) have "lower_hex (last pre)" by metis
    with assms(2) \<open>pre \<noteq> []\<close> show False by simp
  qed
qed

lemma no_window_in_suffix:
  assumes "\<not> contains_hex32 post" and "post = [] \<or> \<not> lower_hex (hd post)"
    and "length front < i + 32"
  shows "\<not> hex32_here (drop i (front @ post))"
proof
  assume window: "hex32_here (drop i (front @ post))"
  then have "i + 32 \<le> length (front @ post)
      \<and> (\<forall>k<32. lower_hex ((front @ post) ! (i + k)))"
    using hex32_here_nth [of i "front @ post"] by blast
  then have fits: "i + 32 \<le> length front + length post"
    and chars: "\<forall>k<32. lower_hex ((front @ post) ! (i + k))"
    by simp_all
  show False
  proof (cases "length front \<le> i")
    case True
    with window have "hex32_here (drop (i - length front) post)" by simp
    with assms(1) show False
      by (auto simp: contains_hex32_iff_window)
  next
    case False
    define k where "k = length front - i"
    from False assms(3) have k: "k < 32" "i + k = length front"
      by (simp_all add: k_def)
    from fits assms(3) have "post \<noteq> []" by auto
    then have "(front @ post) ! (i + k) = hd post"
      using k(2) by (simp add: nth_append hd_conv_nth)
    with chars k(1) have "lower_hex (hd post)" by metis
    with assms(2) \<open>post \<noteq> []\<close> show False by simp
  qed
qed

lemma upper_not_lower: "upper_hex c \<Longrightarrow> \<not> lower_hex c"
  by (auto simp: upper_hex_def lower_hex_def)

lemma match_hex32_long_run:
  assumes "list_all lower_hex run" and "32 \<le> length run"
    and "\<not> contains_hex32 pre" and "pre = [] \<or> \<not> lower_hex (last pre)"
  shows "match_hex32 (pre @ run @ post) = Some (take 32 run)"
proof -
  have here: "hex32_here (drop (length pre) (pre @ run @ post))"
    using assms(1,2) by (auto simp: hex32_here_def list_all_length nth_append)
  have before: "\<forall>j<length pre. \<not> hex32_here (drop j (pre @ run @ post))"
    using no_window_in_prefix [OF assms(3,4)] by blast
  have "take 32 run = take 32 (drop (length pre) (pre @ run @ post))"
    using assms(2) by simp
  with here before show ?thesis
    unfolding match_hex32_Some_iff by blast
qed

lemma match_hex32_uppercase_token:
  assumes "length H = 32" and "\<exists>c\<in>set H. upper_hex c"
    and "\<not> contains_hex32 pre" and "pre = [] \<or> \<not> lower_hex (last pre)"
    and "\<not> contains_hex32 post" and "post = [] \<or> \<not> lower_hex (hd post)"
  shows "match_hex32 (pre @ H @ post) = None"
proof -
  have "\<not> hex32_here (drop i (pre @ H @ post))" for i
  proof -
    consider "i < length pre" | "i = length pre" | "length pre < i" by linarith
    then show ?thesis
    proof cases
      case 1
      then show ?thesis by (rule no_window_in_prefix [OF assms(3,4)])
    next
      case 2
      from assms(2) have "\<not> list_all lower_hex H"
        by (auto simp: list_all_iff dest: upper_not_lower)
      with 2 assms(1) show ?thesis by (simp add: hex32_here_def)
    next
      case 3
      with assms(1) have "length (pre @ H) < i + 32" by simp
      from no_window_in_suffix [OF assms(5,6) this] show ?thesis by simp
    qed
  qed
  then show ?thesis by (simp add: match_hex32_None_iff)
qed

subsection \<open>The stages of the handlers\<close>

lemma trace_search_catch:
  "trace (search_catch_with callback env error) =
     LogError ''Library search error:'' (LThrown error) #
       (case message_of env error of
          Inl e \<Rightarrow> []
        | Inr m \<Rightarrow> [Callback (''Sorry, I'' @ [CHR 0x27] @ ''m having trouble with the search: ''
                               @ m)])"
  by (simp add: search_catch_with_def trace_bnd split: sum.split)

lemma outcome_search_catch:
  "outcome (search_catch_with callback env error) =
     (case message_of env error of
        Inl e \<Rightarrow> Inl e
      | Inr m \<Rightarrow> callback (''Sorry, I'' @ [CHR 0x27] @ ''m having trouble with the search: ''
                             @ m))"
  by (simp add: search_catch_with_def outcome_bnd split: sum.split)

lemma trace_download_catch:
  "trace (download_catch_with callback env error) =
     LogError ''Library download error:'' (LThrown error) #
       (case message_of env error of
          Inl e \<Rightarrow> []
        | Inr m \<Rightarrow> [Callback (''Sorry, I'' @ [CHR 0x27]
                               @ ''m having trouble getting the download links: '' @ m)])"
  by (simp add: download_catch_with_def trace_bnd split: sum.split)

lemma outcome_download_catch:
  "outcome (download_catch_with callback env error) =
     (case message_of env error of
        Inl e \<Rightarrow> Inl e
      | Inr m \<Rightarrow> callback (''Sorry, I'' @ [CHR 0x27]
                             @ ''m having trouble getting the download links: '' @ m))"
  by (simp add: download_catch_with_def outcome_bnd split: sum.split)

lemma trace_ensure_state:
  "trace (ensure_state env message state) =
     (case state of None \<Rightarrow> [ComposeState] | Some st \<Rightarrow> [UpdateRecentMessageState])"
  by (simp add: ensure_state_def call_composeState_def call_updateRecentMessageState_def
           split: option.split)

lemma calls_ensure_state [simp]:
  "extractor_calls (trace (ensure_state env message state)) = []"
  "network_calls (trace (ensure_state env message state)) = []"
  by (simp_all add: trace_ensure_state split: option.split)

lemma trace_read_json:
  "trace (read_json env response) =
     (case body_text response of
        Inl e \<Rightarrow> []
      | Inr raw \<Rightarrow> (case JSON_parse env raw of
                      Inl m \<Rightarrow> [LogError ''Failed to parse response:'' (LStr raw)]
                    | Inr data \<Rightarrow> []))"
  by (simp add: read_json_def trace_bnd split: sum.split)

lemma outcome_read_json:
  "outcome (read_json env response) =
     (case body_text response of
        Inl e \<Rightarrow> Inl e
      | Inr raw \<Rightarrow> (case JSON_parse env raw of
                      Inl m \<Rightarrow> Inl (Error (''Failed to parse API response: '' @ m))
                    | Inr data \<Rightarrow> Inr data))"
  by (simp add: read_json_def outcome_bnd split: sum.split)

lemma read_json_malformed:
  assumes "body_text response = Inr raw" and "JSON_parse env raw = Inl m"
  shows "read_json env response =
           ([LogError ''Failed to parse response:'' (LStr raw)],
            Inl (Error (''Failed to parse API response: '' @ m)))"
  by (rule comp_eqI) (simp_all add: trace_read_json outcome_read_json assms)

lemma read_json_parsed:
  assumes "body_text response = Inr raw" and "JSON_parse env raw = Inr data"
  shows "read_json env response = ret data"
  by (rule comp_eqI) (simp_all add: trace_read_json outcome_read_json assms)

lemma trace_check_ok:
  "trace (check_ok env response data) =
     (if ok response then [] else [LogError ''API Error Response:'' (LVal (Some data))])"
  by (simp add: check_ok_def trace_bnd)

lemma outcome_check_ok:
  "outcome (check_ok env response data) =
     (if ok response then Inr ()
      else Inl (Error (''API request failed with status '' @ show_nat (status response)
                         @ '': '' @ JSON_stringify env data)))"
  by (simp add: check_ok_def outcome_bnd)

lemma calls_download_render [simp]:
  "extractor_calls (trace (download_render links)) = []"
  "network_calls (trace (download_render links)) = []"
  by (simp_all add: download_render_with_def trace_bnd split: sum.split)

lemma calls_search_render [simp]:
  "extractor_calls (trace (search_render data)) = []"
  "network_calls (trace (search_render data)) = []"
  by (simp_all add: search_render_with_def trace_bnd outcome_bnd split: sum.split)

lemma calls_download_process [simp]:
  "extractor_calls (trace (download_process env response)) = []"
  "network_calls (trace (download_process env response)) = []"
  by (simp_all add: download_process_with_def trace_bnd outcome_bnd trace_read_json trace_check_ok
        split: sum.split)

lemma calls_search_process [simp]:
  "extractor_calls (trace (search_process env response)) = []"
  "network_calls (trace (search_process env response)) = []"
  by (simp_all add: search_process_with_def trace_bnd outcome_bnd trace_read_json trace_check_ok
        split: sum.split)

lemma calls_catch [simp]:
  "extractor_calls (trace (download_catch_with callback env error)) = []"
  "network_calls (trace (download_catch_with callback env error)) = []"
  "extractor_calls (trace (search_catch_with callback env error)) = []"
  "network_calls (trace (search_catch_with callback env error)) = []"
  by (simp_all add: trace_download_catch trace_search_catch split: sum.split)

lemma calls_of_handler:
  "extractor_calls (trace (LIBRARY_DOWNLOAD_handler env message state)) =
     extractor_calls (trace (download_try env message state))"
  "network_calls (trace (LIBRARY_DOWNLOAD_handler env message state)) =
     network_calls (trace (download_try env message state))"
  by (simp_all add: LIBRARY_DOWNLOAD_handler_with_def trace_try_catch split: sum.split)

lemma calls_of_download_try:
  "key_configured env \<Longrightarrow>
     extractor_calls (trace (download_try env message state)) =
       extractor_calls (trace (download_request env message state))"
  "key_configured env \<Longrightarrow>
     network_calls (trace (download_try env message state)) =
       network_calls (trace (download_request env message state))"
  "\<not> key_configured env \<Longrightarrow> extractor_calls (trace (download_try env message state)) = []"
  "\<not> key_configured env \<Longrightarrow> network_calls (trace (download_try env message state)) = []"
  by (simp_all add: download_try_with_def trace_bnd split: sum.split)

lemma search_try_reached:
  assumes "key_configured env" and "outcome (search_request env message state) = Inr response"
  shows "trace (search_try env message state) =
           trace (search_request env message state) @ trace (search_process env response)"
    and "outcome (search_try env message state) = outcome (search_process env response)"
  using assms by (simp_all add: search_try_with_def trace_bnd outcome_bnd)

lemma download_try_reached:
  assumes "key_configured env" and "outcome (download_request env message state) = Inr response"
  shows "trace (download_try env message state) =
           trace (download_request env message state) @ trace (download_process env response)"
    and "outcome (download_try env message state) = outcome (download_process env response)"
  using assms by (simp_all add: download_try_with_def trace_bnd outcome_bnd)

lemma search_process_parsed:
  assumes "body_text response = Inr raw" and "JSON_parse env raw = Inr data" and "ok response"
  shows "search_process env response = search_render data"
  using assms
  by (simp add: search_process_with_def read_json_parsed [OF assms(1,2)] bnd_ret check_ok_def)

lemma download_process_parsed:
  assumes "body_text response = Inr raw" and "JSON_parse env raw = Inr links" and "ok response"
  shows "download_process env response = download_render links"
  using assms
  by (simp add: download_process_with_def read_json_parsed [OF assms(1,2)] bnd_ret check_ok_def)

lemma search_handler_succeeds:
  assumes "key_configured env" and "outcome (search_request env message state) = Inr response"
    and "search_process env response = (evs, Inr ())"
  shows "LIBRARY_SEARCH_handler env message state
           = (trace (search_request env message state) @ evs, Inr ())"
  by (rule comp_eqI)
     (simp_all add: LIBRARY_SEARCH_handler_with_def trace_try_catch outcome_try_catch
        search_try_reached [OF assms(1,2)] assms(3))

lemma download_handler_succeeds:
  assumes "key_configured env" and "outcome (download_request env message state) = Inr response"
    and "download_process env response = (evs, Inr ())"
  shows "LIBRARY_DOWNLOAD_handler env message state
           = (trace (download_request env message state) @ evs, Inr ())"
  by (rule comp_eqI)
     (simp_all add: LIBRARY_DOWNLOAD_handler_with_def trace_try_catch outcome_try_catch
        download_try_reached [OF assms(1,2)] assms(3))

subsection \<open>The two ways to the hash\<close>

lemma resolve_md5_direct:
  assumes "match_hex32 (content_text message) = Some h"
  shows "resolve_md5 env message st = ret (Some (JStr h))"
proof -
  from match_hex32_is_substring [OF assms] have "length h = 32" by blast
  then have "h \<noteq> []" by auto
  with assms show ?thesis by (simp add: resolve_md5_with_def)
qed

lemma download_request_direct:
  assumes "match_hex32 (content_text message) = Some h"
  shows "download_request env message state =
           bnd (ensure_state env message state) (\<lambda>st. call_fetch env (download_url h))"
  by (simp add: download_request_with_def resolve_md5_direct [OF assms] ret_def lift_def bnd_def
        to_string_def)

lemma resolve_md5_extractor:
  assumes "match_hex32 (content_text message) = None"
  shows "resolve_md5 env message st = extract_md5 env st"
  using assms by (simp add: resolve_md5_with_def)

lemma extractor_calls_extract_md5:
  "extractor_calls (trace (extract_md5 env st)) = [composeContext env st None DOWNLOAD_TEMPLATE]"
  by (simp add: extract_md5_with_def Let_def trace_bnd outcome_bnd call_generateObjectDeprecated_def
        split: sum.split)

lemma network_calls_extract_md5: "network_calls (trace (extract_md5 env st)) = []"
  by (simp add: extract_md5_with_def Let_def trace_bnd outcome_bnd call_generateObjectDeprecated_def
        split: sum.split)

lemma extract_md5_falsy:
  assumes "generateObjectDeprecated env (composeContext env st None DOWNLOAD_TEMPLATE) = Inr content"
    and "opt_prop content ''md5'' = Inr v" and "\<not> truthy v"
  shows "extract_md5 env st =
           ([GenerateObject (composeContext env st None DOWNLOAD_TEMPLATE)],
            Inl (Error ''Could not find the MD5 hash for the requested book''))"
  using assms
  by (simp add: extract_md5_with_def Let_def call_generateObjectDeprecated_def bnd_def lift_def
        throw_def)

lemma extract_md5_found:
  assumes "generateObjectDeprecated env (composeContext env st None DOWNLOAD_TEMPLATE) = Inr content"
    and "opt_prop content ''md5'' = Inr hash" and "truthy hash"
    and "and_then (get_prop content ''title'') to_string = Inr title_text"
    and "and_then (get_prop content ''author'') to_string = Inr author_text"
  shows "extract_md5 env st =
           ([GenerateObject (composeContext env st None DOWNLOAD_TEMPLATE),
             Callback (''Downloading \"'' @ title_text @ ''\" by '' @ author_text @ ''...'')],
            Inr hash)"
  using assms
  by (simp add: extract_md5_with_def Let_def call_generateObjectDeprecated_def bnd_def lift_def
        call_callback_def emit_def ret_def)

lemma extract_md5_returns:
  assumes "outcome (extract_md5 env st) = Inr hash"
  shows "\<exists>content title_text author_text.
           generateObjectDeprecated env (composeContext env st None DOWNLOAD_TEMPLATE) = Inr content
         \<and> opt_prop content ''md5'' = Inr hash \<and> truthy hash
         \<and> and_then (get_prop content ''title'') to_string = Inr title_text
         \<and> and_then (get_prop content ''author'') to_string = Inr author_text"
  using assms
  by (auto simp: extract_md5_with_def Let_def outcome_bnd call_generateObjectDeprecated_def
        split: sum.splits if_splits)

lemma trace_download_request_extractor:
  assumes "match_hex32 (content_text message) = None"
    and "outcome (ensure_state env message state) = Inr st"
  shows "trace (download_request env message state) =
           trace (ensure_state env message state) @ trace (extract_md5 env st) @
             (case outcome (extract_md5 env st) of
                Inl e \<Rightarrow> []
              | Inr hash \<Rightarrow> (case to_string hash of
                              Inl e \<Rightarrow> []
                            | Inr hash_text \<Rightarrow> [Fetch (download_url hash_text) (request_headers env)]))"
  using assms
  by (simp add: download_request_with_def resolve_md5_extractor trace_bnd outcome_bnd call_fetch_def
        split: sum.split)

lemma outcome_download_request_extractor:
  assumes "match_hex32 (content_text message) = None"
    and "outcome (ensure_state env message state) = Inr st"
    and "outcome (extract_md5 env st) = Inl e"
  shows "outcome (download_request env message state) = Inl e"
  using assms
  by (simp add: download_request_with_def resolve_md5_extractor outcome_bnd)

lemma download_trace_on_extractor_path:
  assumes "\<not> contains_hex32 (content_text message)"
    and "network_calls (trace (LIBRARY_DOWNLOAD_handler env message state)) \<noteq> []"
  shows "\<exists>st content hash title_text author_text.
           key_configured env
         \<and> outcome (ensure_state env message state) = Inr st
         \<and> generateObjectDeprecated env (composeContext env st None DOWNLOAD_TEMPLATE) = Inr content
         \<and> opt_prop content ''md5'' = Inr hash \<and> truthy hash
         \<and> and_then (get_prop content ''title'') to_string = Inr title_text
         \<and> and_then (get_prop content ''author'') to_string = Inr author_text"
proof -
  from assms(1) have none: "match_hex32 (content_text message) = None"
    by (simp add: contains_hex32_iff_match)
  have key: "key_configured env"
    using assms(2) by (cases "key_configured env") (simp_all add: calls_of_handler calls_of_download_try)
  then have req: "network_calls (trace (download_request env message state)) \<noteq> []"
    using assms(2) by (simp add: calls_of_handler calls_of_download_try)
  obtain st where st: "outcome (ensure_state env message state) = Inr st"
  proof (cases "outcome (ensure_state env message state)")
    case (Inl e)
    then have "network_calls (trace (download_request env message state)) = []"
      by (simp add: download_request_with_def trace_bnd)
    with req show ?thesis by simp
  next
    case (Inr st)
    with that show ?thesis .
  qed
  obtain hash where hash: "outcome (extract_md5 env st) = Inr hash"
  proof (cases "outcome (extract_md5 env st)")
    case (Inl e)
    then have "network_calls (trace (download_request env message state)) = []"
      by (simp add: trace_download_request_extractor [OF none st] network_calls_extract_md5)
    with req show ?thesis by simp
  next
    case (Inr hash)
    with that show ?thesis .
  qed
  from extract_md5_returns [OF hash] key st show ?thesis by blast
qed

lemma download_trace_with_status_message:
  assumes "key_configured env"
    and "outcome (ensure_state env message state) = Inr st"
    and "\<not> contains_hex32 (content_text message)"
    and "generateObjectDeprecated env (composeContext env st None DOWNLOAD_TEMPLATE) = Inr content"
    and "opt_prop content ''md5'' = Inr hash" and "truthy hash"
    and "and_then (get_prop content ''title'') to_string = Inr title_text"
    and "and_then (get_prop content ''author'') to_string = Inr author_text"
  shows "\<exists>quiet. network_calls quiet = []
         \<and> trace (LIBRARY_DOWNLOAD_handler env message state) =
             trace (ensure_state env message state) @
               [GenerateObject (composeContext env st None DOWNLOAD_TEMPLATE),
                Callback (''Downloading \"'' @ title_text @ ''\" by '' @ author_text @ ''...'')]
               @ (case to_string hash of
                    Inl e \<Rightarrow> []
                  | Inr hash_text \<Rightarrow> [Fetch (download_url hash_text) (request_headers env)])
               @ quiet"
proof -
  from assms(3) have none: "match_hex32 (content_text message) = None"
    by (simp add: contains_hex32_iff_match)
  note ex = extract_md5_found [OF assms(4-8)]
  let ?fetch = "case to_string hash of
                  Inl e \<Rightarrow> []
                | Inr hash_text \<Rightarrow> [Fetch (download_url hash_text) (request_headers env)]"
  let ?process = "case outcome (download_request env message state) of
                    Inl e \<Rightarrow> []
                  | Inr response \<Rightarrow> trace (download_process env response)"
  let ?catch = "case outcome (download_try env message state) of
                  Inl e \<Rightarrow> trace (download_catch env e)
                | Inr u \<Rightarrow> []"
  have req: "trace (download_request env message state) =
      trace (ensure_state env message state) @
        [GenerateObject (composeContext env st None DOWNLOAD_TEMPLATE),
         Callback (''Downloading \"'' @ title_text @ ''\" by '' @ author_text @ ''...'')] @ ?fetch"
    by (simp add: trace_download_request_extractor [OF none assms(2)] ex)
  have whole: "trace (LIBRARY_DOWNLOAD_handler env message state) =
      trace (ensure_state env message state) @
        [GenerateObject (composeContext env st None DOWNLOAD_TEMPLATE),
         Callback (''Downloading \"'' @ title_text @ ''\" by '' @ author_text @ ''...'')]
        @ ?fetch @ (?process @ ?catch)"
    using assms(1)
    by (simp add: LIBRARY_DOWNLOAD_handler_with_def trace_try_catch download_try_with_def trace_bnd req)
  have quiet: "network_calls (?process @ ?catch) = []"
    by (simp split: sum.split)
  from quiet whole show ?thesis by blast
qed

subsection \<open>Rendering\<close>


lemma required_stringD:
  "required_string kvs k = Some s \<Longrightarrow> map_of kvs k = Some (JStr s)"
  by (auto simp: required_string_def split: option.splits json.splits)

lemma optional_stringD:
  assumes "optional_string kvs k = Some field"
  shows "truthy (map_of kvs k) = shown field"
    and "shown field \<Longrightarrow> to_string (map_of kvs k) = Inr (the field)"
  using assms
  by (auto simp: optional_string_def shown_def to_string_def split: option.splits json.splits)

lemma format_book_well_formed:
  assumes "as_book j = Some b"
  shows "format_book j = Inr (render_book b)"
proof (cases j)
  case (JObj kvs)
  with assms obtain t a m s g f y where
    fields: "required_string kvs ''title'' = Some t" "optional_string kvs ''author'' = Some a"
      "required_string kvs ''md5'' = Some m" "required_string kvs ''size'' = Some s"
      "optional_string kvs ''genre'' = Some g" "required_string kvs ''format'' = Some f"
      "optional_string kvs ''year'' = Some y"
    and b: "b = \<lparr> title = t, author = a, md5 = m, file_size = s, genre = g, format = f,
                  year = y \<rparr>"
    by (auto simp: bind_eq_Some_conv)
  note req = fields(1,3,4,6) [THEN required_stringD]
  note a = optional_stringD [OF fields(2)]
  note g = optional_stringD [OF fields(5)]
  note y = optional_stringD [OF fields(7)]
  have "format_book (JObj kvs) = Inr (render_book b)"
    unfolding format_book_def render_book_def b
    by (simp add: and_then_def req a g y to_string_def [of "Some (JStr x)" for x])
  with JObj show ?thesis by simp
qed (use assms in simp_all)

lemma map_from_books:
  assumes "those (map as_book js) = Some bs"
  shows "map_from i (\<lambda>book index. format_book book) js = Inr (map render_book bs)"
  using assms
proof (induction js arbitrary: bs i)
  case Nil
  then show ?case by simp
next
  case (Cons j js)
  then obtain b bs' where b: "as_book j = Some b" "those (map as_book js) = Some bs'"
      "bs = b # bs'"
    by (auto split: option.splits)
  with Cons.IH [OF b(2)] show ?case
    by (simp add: and_then_def format_book_well_formed)
qed

lemma those_length: "those xs = Some ys \<Longrightarrow> length ys = length xs"
  by (induction xs arbitrary: ys) (auto split: option.splits)

lemma digit_facts:
  assumes "d < 10"
  shows "''0123456789'' ! d \<in> set ''0123456789''"
    and "of_char (''0123456789'' ! d) - 48 = d"
    and "''0123456789'' ! d = CHR ''0'' \<longleftrightarrow> d = 0"
proof -
  from assms have "d = 0 \<or> d = 1 \<or> d = 2 \<or> d = 3 \<or> d = 4 \<or> d = 5 \<or> d = 6
    \<or> d = 7 \<or> d = 8 \<or> d = 9"
    by arith
  then show "''0123456789'' ! d \<in> set ''0123456789''"
    and "of_char (''0123456789'' ! d) - 48 = d"
    and "''0123456789'' ! d = CHR ''0'' \<longleftrightarrow> d = 0"
    by (elim disjE; simp)+
qed

lemma show_nat_decimal:
  "show_nat n \<noteq> []
   \<and> (\<forall>c\<in>set (show_nat n). c \<in> set ''0123456789'')
   \<and> (hd (show_nat n) = CHR ''0'' \<longrightarrow> show_nat n = ''0'')
   \<and> foldl (\<lambda>a c. 10 * a + (of_char c - 48)) 0 (show_nat n) = n"
proof (induction n rule: show_nat.induct)
  case (1 n)
  show ?case
  proof (cases "n < 10")
    case True
    then have s: "show_nat n = [''0123456789'' ! n]" by (simp add: show_nat.simps)
    from digit_facts [OF True] show ?thesis unfolding s by simp
  next
    case False
    let ?d = "n mod 10"
    have d: "?d < 10" by simp
    from False have s: "show_nat n = show_nat (n div 10) @ [''0123456789'' ! ?d]"
      by (subst show_nat.simps) simp
    note IH = "1.IH" [OF False]
    from IH have ne: "show_nat (n div 10) \<noteq> []" by blast
    have no_zero: "hd (show_nat (n div 10)) \<noteq> CHR ''0''"
    proof
      assume "hd (show_nat (n div 10)) = CHR ''0''"
      with IH have "show_nat (n div 10) = ''0''" by blast
      moreover from IH have "foldl (\<lambda>a c. 10 * a + (of_char c - 48)) 0 (show_nat (n div 10))
          = n div 10" by blast
      ultimately have "n div 10 = 0" by simp
      with False show False by simp
    qed
    from IH digit_facts [OF d] ne no_zero show ?thesis
      unfolding s by (auto simp: hd_append)
  qed
qed

lemma show_nat_zero_iff: "show_nat n = ''0'' \<longleftrightarrow> n = 0"
proof
  assume "show_nat n = ''0''"
  moreover have "foldl (\<lambda>a c. 10 * a + (of_char c - 48)) 0 (show_nat n) = n"
    using show_nat_decimal [of n] by blast
  ultimately show "n = 0" by simp
next
  assume "n = 0"
  then show "show_nat n = ''0''" by (simp add: show_nat.simps)
qed

lemma join_Cons: "join sep (x # xs) = x @ concat (map (\<lambda>y. sep @ y) xs)"
  by (induction xs arbitrary: x) simp_all

lemma concat_indexed:
  "concat (map (\<lambda>i. (if i = 0 then [] else sep) @ f i) [0..<Suc n])
     = f 0 @ concat (map (\<lambda>i. sep @ f (Suc i)) [0..<n])"
proof -
  have "[0..<Suc n] = 0 # map Suc [0..<n]"
    by (simp add: upt_conv_Cons map_Suc_upt del: upt_Suc)
  then show ?thesis by (simp add: comp_def del: upt_Suc)
qed

lemma join_indexed:
  "join sep xs = concat (map (\<lambda>i. (if i = 0 then [] else sep) @ xs ! i) [0..<length xs])"
proof (cases xs)
  case Nil
  then show ?thesis by simp
next
  case (Cons x ys)
  have "map (\<lambda>i. sep @ ys ! i) [0..<length ys]
          = map (\<lambda>y. sep @ y) (map (\<lambda>i. ys ! i) [0..<length ys])"
    by (simp add: comp_def)
  then have tail: "map (\<lambda>i. sep @ ys ! i) [0..<length ys] = map (\<lambda>y. sep @ y) ys"
    by (simp only: map_nth)
  have "concat (map (\<lambda>i. (if i = 0 then [] else sep) @ (x # ys) ! i) [0..<Suc (length ys)])
          = (x # ys) ! 0 @ concat (map (\<lambda>i. sep @ (x # ys) ! Suc i) [0..<length ys])"
    by (rule concat_indexed)
  also have "\<dots> = x @ concat (map (\<lambda>y. sep @ y) ys)"
    using tail by simp
  finally show ?thesis
    unfolding Cons by (simp only: join_Cons length_Cons)
qed

lemma join_map_indexed:
  "join sep (map f xs)
     = concat (map (\<lambda>i. (if i = 0 then [] else sep) @ f (xs ! i)) [0..<length xs])"
proof -
  have same: "map (\<lambda>i. (if i = 0 then [] else sep) @ map f xs ! i) [0..<length xs]
          = map (\<lambda>i. (if i = 0 then [] else sep) @ f (xs ! i)) [0..<length xs]"
    by (intro map_cong refl) simp
  have "join sep (map f xs)
          = concat (map (\<lambda>i. (if i = 0 then [] else sep) @ map f xs ! i) [0..<length xs])"
    using join_indexed [of sep "map f xs"] by (simp only: length_map)
  also have "\<dots> = concat (map (\<lambda>i. (if i = 0 then [] else sep) @ f (xs ! i)) [0..<length xs])"
    using same by (rule arg_cong)
  finally show ?thesis .
qed

lemma search_render_well_formed:
  assumes "as_response data = Some r" and "books r \<noteq> []"
  shows "search_render data =
           ([Log ''Search results:'' (LVal (Some data)),
             Callback (''Found '' @ show_nat (total r) @ '' books. Here are the top ''
                         @ show_nat (length (books r)) @ '' results:''
                         @ ''\<newline>\<newline>''
                         @ concat (map (\<lambda>i. (if i = 0 then [] else ''\<newline>\<newline>'')
                                            @ render_book (books r ! i))
                                     [0..<length (books r)])
                         @ ''\<newline>\<newline>To download a book, ask me using its MD5 hash.'')],
            Inr ())"
    and "get_prop (Some data) ''total'' = Inr (Some (JNum (show_nat (total r))))"
    and "total r < 10 ^ 21" and "length (books r) < 2 ^ 32"
proof -
  from assms(1) obtain kvs where JObj: "data = JObj kvs"
    by (cases data) simp_all
  with assms(1) obtain printed js bs where
    parts: "map_of kvs ''total'' = Some (JNum printed)" "map_of kvs ''books'' = Some (JArr js)"
      "those (map as_book js) = Some bs"
    and numeral: "show_nat (decimal_value printed) = printed" "decimal_value printed < 10 ^ 21"
      "length js < 2 ^ 32"
    and r: "r = \<lparr> total = decimal_value printed, books = bs \<rparr>"
    by (auto split: option.splits json.splits if_splits)
  from those_length [OF parts(3)] have len: "length bs = length js" by simp
  with assms(2) r have "js \<noteq> []" by auto
  then have "show_nat (length js) \<noteq> ''0''" by (simp add: show_nat_zero_iff)
  moreover have "join ''\<newline>\<newline>'' (map render_book bs)
      = concat (map (\<lambda>i. (if i = 0 then [] else ''\<newline>\<newline>'') @ render_book (bs ! i))
                  [0..<length bs])"
    by (rule join_map_indexed)
  ultimately show "search_render data =
           ([Log ''Search results:'' (LVal (Some data)),
             Callback (''Found '' @ show_nat (total r) @ '' books. Here are the top ''
                         @ show_nat (length (books r)) @ '' results:''
                         @ ''\<newline>\<newline>''
                         @ concat (map (\<lambda>i. (if i = 0 then [] else ''\<newline>\<newline>'')
                                            @ render_book (books r ! i))
                                     [0..<length (books r)])
                         @ ''\<newline>\<newline>To download a book, ask me using its MD5 hash.'')],
            Inr ())"
    unfolding JObj
    by (simp add: search_render_with_def falsy_or_empty_def bnd_def emit_def lift_def
          call_callback_def and_then_def parts map_from_books [OF parts(3)] to_string_def
          r len numeral del: upt_Suc)
  show "get_prop (Some data) ''total'' = Inr (Some (JNum (show_nat (total r))))"
    unfolding JObj by (simp add: parts r numeral)
  show "total r < 10 ^ 21" "length (books r) < 2 ^ 32"
    using numeral len by (simp_all add: r)
qed

lemma map_from_links:
  "map_from i format_link (map JStr ls) =
     Inr (map (\<lambda>j. show_nat (i + j + 1) @ ''. '' @ ls ! j) [0..<length ls])"
proof (induction ls arbitrary: i)
  case Nil
  show ?case by simp
next
  case (Cons l ls)
  have "map (\<lambda>j. show_nat (i + j + 1) @ ''. '' @ (l # ls) ! j) [0..<length (l # ls)]
          = (show_nat (i + 1) @ ''. '' @ l)
              # map (\<lambda>j. show_nat (Suc i + j + 1) @ ''. '' @ ls ! j) [0..<length ls]"
    by (simp add: upt_conv_Cons map_Suc_upt [symmetric] comp_def del: upt_Suc)
  with Cons.IH [of "Suc i"] show ?case
    by (simp add: and_then_def format_link_def to_string_def del: upt_Suc)
qed

lemma download_render_links:
  assumes "ls \<noteq> []"
  shows "download_render (JArr (map JStr ls)) =
           ([Callback (''Here are the download links for the book:\<newline>\<newline>''
                         @ concat (map (\<lambda>i. (if i = 0 then [] else ''\<newline>'')
                                            @ show_nat (i + 1) @ ''. '' @ ls ! i)
                                     [0..<length ls]))],
            Inr ())"
proof -
  from assms have "show_nat (length ls) \<noteq> ''0''" by (simp add: show_nat_zero_iff)
  moreover have "join ''\<newline>'' (map (\<lambda>j. show_nat (0 + j + 1) @ ''. '' @ ls ! j) [0..<length ls])
      = concat (map (\<lambda>i. (if i = 0 then [] else ''\<newline>'') @ show_nat (i + 1) @ ''. '' @ ls ! i)
                  [0..<length ls])"
  proof -
    have "map (\<lambda>i. (if i = 0 then [] else ''\<newline>'')
                     @ (\<lambda>j. show_nat (0 + j + 1) @ ''. '' @ ls ! j) ([0..<length ls] ! i))
            [0..<length [0..<length ls]]
          = map (\<lambda>i. (if i = 0 then [] else ''\<newline>'') @ show_nat (i + 1) @ ''. '' @ ls ! i)
              [0..<length ls]"
      by (intro map_cong) simp_all
    then show ?thesis by (simp only: join_map_indexed)
  qed
  ultimately show ?thesis
    by (simp add: download_render_with_def falsy_or_empty_def bnd_def lift_def call_callback_def
          and_then_def map_from_links del: upt_Suc)
qed

subsection \<open>Concrete runs\<close>

text \<open>
  The definitions that a run on the stub host unfolds.
\<close>

lemmas run_defs =
  stub_env_def respond_def key_configured_def message_of_def call_composeState_def
  call_updateRecentMessageState_def call_generateObjectDeprecated_def call_fetch_def
  request_headers_def ensure_state_def read_json_def check_ok_def
  trace_bnd outcome_bnd and_then_def opt_prop_def to_string_def
  hex32_here_def lower_hex_def

section \<open>The claims\<close>

text \<open>
  Claim C1, as amended. Whatever the body of the \<^verbatim>\<open>try\<close> block throws (the extractor gave
  no search term or no hash, the body of the response did not parse, the service answered
  with a failure status, a collaborator raised), if the message of the thrown value can be
  read, the handler logs the value and calls the callback with the apology that ends with
  that message; if this call of the callback returns, the handler returns normally. A
  handler whose \<^verbatim>\<open>try\<close> block returns does nothing more. The message of an \<^verbatim>\<open>Error\<close> object
  can always be read; that of \<^verbatim>\<open>null\<close> and \<^verbatim>\<open>undefined\<close> cannot.
\<close>

theorem handlers_catch_errors_with_message:
  "(\<forall>error m.
      outcome (search_try_with callback env message state) = Inl error \<longrightarrow>
      message_of env error = Inr m \<longrightarrow>
      callback (''Sorry, I'' @ [CHR 0x27] @ ''m having trouble with the search: '' @ m)
        = Inr () \<longrightarrow>
        LIBRARY_SEARCH_handler_with callback env message state =
          (trace (search_try_with callback env message state) @
             [LogError ''Library search error:'' (LThrown error),
              Callback (''Sorry, I'' @ [CHR 0x27] @ ''m having trouble with the search: '' @ m)],
           Inr ()))
   \<and> (\<forall>error m.
      outcome (download_try_with callback env message state) = Inl error \<longrightarrow>
      message_of env error = Inr m \<longrightarrow>
      callback (''Sorry, I'' @ [CHR 0x27] @ ''m having trouble getting the download links: ''
                  @ m) = Inr () \<longrightarrow>
        LIBRARY_DOWNLOAD_handler_with callback env message state =
          (trace (download_try_with callback env message state) @
             [LogError ''Library download error:'' (LThrown error),
              Callback (''Sorry, I'' @ [CHR 0x27]
                          @ ''m having trouble getting the download links: '' @ m)],
           Inr ()))
   \<and> (outcome (search_try_with callback env message state) = Inr () \<longrightarrow>
        LIBRARY_SEARCH_handler_with callback env message state =
          search_try_with callback env message state)
   \<and> (outcome (download_try_with callback env message state) = Inr () \<longrightarrow>
        LIBRARY_DOWNLOAD_handler_with callback env message state =
          download_try_with callback env message state)
   \<and> (\<forall>msg. message_of env (Error msg) = Inr msg)
   \<and> (\<forall>f. message_of env (TypeError f) = Inr (type_error_message env f))
   \<and> (\<forall>v. message_of env (Value v) =
         (if v = None \<or> v = Some JNull then Inl (TypeError (PropertyOfNullish ''message''))
          else and_then (get_prop v ''message'') to_string))"
proof (intro conjI allI impI)
  fix error m
  assume "outcome (search_try_with callback env message state) = Inl error"
    and "message_of env error = Inr m"
    and "callback (''Sorry, I'' @ [CHR 0x27] @ ''m having trouble with the search: '' @ m)
           = Inr ()"
  then show "LIBRARY_SEARCH_handler_with callback env message state =
          (trace (search_try_with callback env message state) @
             [LogError ''Library search error:'' (LThrown error),
              Callback (''Sorry, I'' @ [CHR 0x27] @ ''m having trouble with the search: '' @ m)],
           Inr ())"
    by (simp add: LIBRARY_SEARCH_handler_with_def try_catch_thrown trace_search_catch
          outcome_search_catch)
next
  fix error m
  assume "outcome (download_try_with callback env message state) = Inl error"
    and "message_of env error = Inr m"
    and "callback (''Sorry, I'' @ [CHR 0x27] @ ''m having trouble getting the download links: ''
                     @ m) = Inr ()"
  then show "LIBRARY_DOWNLOAD_handler_with callback env message state =
          (trace (download_try_with callback env message state) @
             [LogError ''Library download error:'' (LThrown error),
              Callback (''Sorry, I'' @ [CHR 0x27]
                          @ ''m having trouble getting the download links: '' @ m)],
           Inr ())"
    by (simp add: LIBRARY_DOWNLOAD_handler_with_def try_catch_thrown trace_download_catch
          outcome_download_catch)
next
  assume "outcome (search_try_with callback env message state) = Inr ()"
  then show "LIBRARY_SEARCH_handler_with callback env message state =
          search_try_with callback env message state"
    by (simp add: LIBRARY_SEARCH_handler_with_def try_catch_returned)
next
  assume "outcome (download_try_with callback env message state) = Inr ()"
  then show "LIBRARY_DOWNLOAD_handler_with callback env message state =
          download_try_with callback env message state"
    by (simp add: LIBRARY_DOWNLOAD_handler_with_def try_catch_returned)
next
  fix msg show "message_of env (Error msg) = Inr msg"
    by (simp add: message_of_def)
next
  fix f show "message_of env (TypeError f) = Inr (type_error_message env f)"
    by (simp add: message_of_def)
next
  fix v show "message_of env (Value v) =
         (if v = None \<or> v = Some JNull then Inl (TypeError (PropertyOfNullish ''message''))
          else and_then (get_prop v ''message'') to_string)"
    by (auto simp: message_of_def and_then_def)
qed

theorem handlers_catch_errors_with_message_witness:
  "LIBRARY_DOWNLOAD_handler
      (stub_env (Some ''key'') (Inr (Some JNull)) (respond True 200 ''[]'') (Inr (JArr [])))
      \<lparr>content_text = ''download the bostrom book''\<rparr> None
     = ([ComposeState, GenerateObject ''recent messages'',
         LogError ''Library download error:''
           (LThrown (Error ''Could not find the MD5 hash for the requested book'')),
         Callback (''Sorry, I'' @ [CHR 0x27] @ ''m having trouble getting the download links: ''
                     @ ''Could not find the MD5 hash for the requested book'')],
        Inr ())
   \<and> LIBRARY_SEARCH_handler
      (stub_env (Some ''key'') (Inr (Some (JObj []))) (respond True 200 ''[]'') (Inr (JArr [])))
      \<lparr>content_text = ''hello''\<rparr> None
     = ([ComposeState, GenerateObject ''hello'',
         LogError ''Library search error:'' (LThrown (Error ''No search term found in response'')),
         Callback (''Sorry, I'' @ [CHR 0x27] @ ''m having trouble with the search: ''
                     @ ''No search term found in response'')],
        Inr ())
   \<and> LIBRARY_DOWNLOAD_handler
      (stub_env (Some ''key'') (Inr (Some JNull)) (respond False 403 ''{}'') (Inr (JObj [])))
      \<lparr>content_text = ''Download book with MD5 5b723c172fc4c8a77f476e7016ad3945''\<rparr> None
     = ([ComposeState,
         Fetch ''https://annas-archive-api.p.rapidapi.com/download?md5=5b723c172fc4c8a77f476e7016ad3945''
           [(''x-rapidapi-host'', ''annas-archive-api.p.rapidapi.com''), (''x-rapidapi-key'', ''key'')],
         LogError ''API Error Response:'' (LVal (Some (JObj []))),
         LogError ''Library download error:''
           (LThrown (Error ''API request failed with status 403: {}'')),
         Callback (''Sorry, I'' @ [CHR 0x27] @ ''m having trouble getting the download links: ''
                     @ ''API request failed with status 403: {}'')],
        Inr ())"
proof -
  let ?E1 = "stub_env (Some ''key'') (Inr (Some JNull)) (respond True 200 ''[]'') (Inr (JArr []))"
  let ?M1 = "\<lparr>content_text = ''download the bostrom book''\<rparr>"
  let ?E2 = "stub_env (Some ''key'') (Inr (Some (JObj []))) (respond True 200 ''[]'') (Inr (JArr []))"
  let ?M2 = "\<lparr>content_text = ''hello''\<rparr>"
  let ?E3 = "stub_env (Some ''key'') (Inr (Some JNull)) (respond False 403 ''{}'') (Inr (JObj []))"
  let ?M3 = "\<lparr>content_text = ''Download book with MD5 5b723c172fc4c8a77f476e7016ad3945''\<rparr>"
  have m: "match_hex32 ''Download book with MD5 5b723c172fc4c8a77f476e7016ad3945''
             = Some ''5b723c172fc4c8a77f476e7016ad3945''"
    by (simp add: hex32_here_def lower_hex_def)
  have thrown1: "outcome (download_try ?E1 ?M1 None)
      = Inl (Error ''Could not find the MD5 hash for the requested book'')"
    and before1: "trace (download_try ?E1 ?M1 None)
      = [ComposeState, GenerateObject ''recent messages'']"
    by (simp_all add: download_try_with_def download_request_with_def resolve_md5_with_def
          extract_md5_with_def run_defs)
  have thrown2: "outcome (search_try ?E2 ?M2 None) = Inl (Error ''No search term found in response'')"
    and before2: "trace (search_try ?E2 ?M2 None) = [ComposeState, GenerateObject ''hello'']"
    by (simp_all add: search_try_with_def search_request_def Let_def run_defs)
  have thrown3: "outcome (download_try ?E3 ?M3 None)
      = Inl (Error ''API request failed with status 403: {}'')"
    and before3: "trace (download_try ?E3 ?M3 None)
      = [ComposeState,
         Fetch ''https://annas-archive-api.p.rapidapi.com/download?md5=5b723c172fc4c8a77f476e7016ad3945''
           [(''x-rapidapi-host'', ''annas-archive-api.p.rapidapi.com''), (''x-rapidapi-key'', ''key'')],
         LogError ''API Error Response:'' (LVal (Some (JObj [])))]"
    by (simp_all add: download_try_with_def download_request_with_def resolve_md5_with_def m
          download_process_with_def download_url_def RAPID_API_HOST_def show_nat.simps run_defs)
  have msg: "message_of env (Error e_text) = Inr e_text" for env :: "unit env" and e_text
    by (simp add: message_of_def)
  have ret: "returning t = Inr ()" for t by simp
  from handlers_catch_errors_with_message
         [of returning ?E1 ?M1 None, THEN conjunct2, THEN conjunct1, rule_format,
          OF thrown1 msg ret]
  have "LIBRARY_DOWNLOAD_handler ?E1 ?M1 None
     = ([ComposeState, GenerateObject ''recent messages'',
         LogError ''Library download error:''
           (LThrown (Error ''Could not find the MD5 hash for the requested book'')),
         Callback (''Sorry, I'' @ [CHR 0x27] @ ''m having trouble getting the download links: ''
                     @ ''Could not find the MD5 hash for the requested book'')],
        Inr ())"
    by (simp add: before1)
  moreover from handlers_catch_errors_with_message
         [of returning ?E2 ?M2 None, THEN conjunct1, rule_format, OF thrown2 msg ret]
  have "LIBRARY_SEARCH_handler ?E2 ?M2 None
     = ([ComposeState, GenerateObject ''hello'',
         LogError ''Library search error:'' (LThrown (Error ''No search term found in response'')),
         Callback (''Sorry, I'' @ [CHR 0x27] @ ''m having trouble with the search: ''
                     @ ''No search term found in response'')],
        Inr ())"
    by (simp add: before2)
  moreover from handlers_catch_errors_with_message
         [of returning ?E3 ?M3 None, THEN conjunct2, THEN conjunct1, rule_format,
          OF thrown3 msg ret]
  have "LIBRARY_DOWNLOAD_handler ?E3 ?M3 None
     = ([ComposeState,
         Fetch ''https://annas-archive-api.p.rapidapi.com/download?md5=5b723c172fc4c8a77f476e7016ad3945''
           [(''x-rapidapi-host'', ''annas-archive-api.p.rapidapi.com''), (''x-rapidapi-key'', ''key'')],
         LogError ''API Error Response:'' (LVal (Some (JObj []))),
         LogError ''Library download error:''
           (LThrown (Error ''API request failed with status 403: {}'')),
         Callback (''Sorry, I'' @ [CHR 0x27] @ ''m having trouble getting the download links: ''
                     @ ''API request failed with status 403: {}'')],
        Inr ())"
    by (simp add: before3)
  ultimately show ?thesis by (intro conjI)
qed

text \<open>
  Claim C1 as stated fails in the \<^verbatim>\<open>catch\<close> block itself. When the runtime rejects with
  \<^verbatim>\<open>null\<close>, reading \<^verbatim>\<open>error.message\<close> raises a TypeError after the log line, and the
  handler ends with that TypeError. When the callback of the host throws, the call in the
  \<^verbatim>\<open>catch\<close> block throws as well, and the handler ends with what the callback threw.
\<close>

theorem catch_block_throws_counterexample:
  "outcome (LIBRARY_DOWNLOAD_handler
      ((stub_env (Some ''key'') (Inr (Some JNull)) (respond True 200 ''[]'') (Inr (JArr [])))
         \<lparr>composeState := (\<lambda>message. Inl (Value (Some JNull)))\<rparr>)
      \<lparr>content_text = ''download the bostrom book''\<rparr> None)
     = Inl (TypeError (PropertyOfNullish ''message''))
   \<and> trace (LIBRARY_DOWNLOAD_handler
      ((stub_env (Some ''key'') (Inr (Some JNull)) (respond True 200 ''[]'') (Inr (JArr [])))
         \<lparr>composeState := (\<lambda>message. Inl (Value (Some JNull)))\<rparr>)
      \<lparr>content_text = ''download the bostrom book''\<rparr> None)
     = [ComposeState, LogError ''Library download error:'' (LThrown (Value (Some JNull)))]
   \<and> outcome (LIBRARY_SEARCH_handler_with (\<lambda>txt. Inl (Error ''connection closed''))
      (stub_env None (Inr (Some JNull)) (respond True 200 ''[]'') (Inr (JArr [])))
      \<lparr>content_text = ''find me a book on NLP''\<rparr> None)
     = Inl (Error ''connection closed'')
   \<and> trace (LIBRARY_SEARCH_handler_with (\<lambda>txt. Inl (Error ''connection closed''))
      (stub_env None (Inr (Some JNull)) (respond True 200 ''[]'') (Inr (JArr [])))
      \<lparr>content_text = ''find me a book on NLP''\<rparr> None)
     = [Callback ''Error: RAPID_API_KEY is not configured'',
        LogError ''Library search error:'' (LThrown (Error ''connection closed'')),
        Callback (''Sorry, I'' @ [CHR 0x27] @ ''m having trouble with the search: ''
                    @ ''connection closed'')]"
  by (simp add: LIBRARY_DOWNLOAD_handler_with_def LIBRARY_SEARCH_handler_with_def
        trace_try_catch outcome_try_catch download_try_with_def search_try_with_def
        download_request_with_def trace_download_catch outcome_download_catch
        trace_search_catch outcome_search_catch stub_env_def key_configured_def message_of_def
        call_composeState_def ensure_state_def trace_bnd outcome_bnd and_then_def)



text \<open>
  Claim C3. When the text of the message contains a 32-character lowercase hexadecimal
  substring, LIBRARY_DOWNLOAD never calls the extractor, and a substring \<open>h\<close> of that kind is
  the hash of every request it sends: every network call goes to the address that ends
  with \<^verbatim>\<open>/download?md5=\<close> and \<open>h\<close>, and when the key is configured and the state is
  composed, exactly that one request is sent.
\<close>

theorem direct_hash_skips_extractor:
  assumes "contains_hex32 (content_text message)"
  shows "\<exists>h pre post.
           content_text message = pre @ h @ post \<and> length h = 32 \<and> list_all lower_hex h
         \<and> (\<forall>context. GenerateObject context
                \<notin> set (trace (LIBRARY_DOWNLOAD_handler env message state)))
         \<and> extractor_calls (trace (LIBRARY_DOWNLOAD_handler env message state)) = []
         \<and> (\<forall>url headers.
               Fetch url headers \<in> set (trace (LIBRARY_DOWNLOAD_handler env message state)) \<longrightarrow>
                 url = ''https://annas-archive-api.p.rapidapi.com/download?md5='' @ h)
         \<and> (key_configured env \<longrightarrow>
              (\<forall>st. outcome (ensure_state env message state) = Inr st \<longrightarrow>
                 network_calls (trace (LIBRARY_DOWNLOAD_handler env message state))
                   = [''https://annas-archive-api.p.rapidapi.com/download?md5='' @ h]))"
proof -
  from assms obtain h where h: "match_hex32 (content_text message) = Some h"
    by (auto simp: contains_hex32_iff_match)
  from match_hex32_is_substring [OF h] obtain pre post where
    sub: "content_text message = pre @ h @ post" "length h = 32" "list_all lower_hex h"
    by blast
  let ?url = "''https://annas-archive-api.p.rapidapi.com/download?md5='' @ h"
  have url: "download_url h = ?url"
    by (simp add: download_url_def RAPID_API_HOST_def)
  note req = download_request_direct [OF h, of env state]
  have no_extractor: "extractor_calls (trace (LIBRARY_DOWNLOAD_handler env message state)) = []"
    by (cases "key_configured env")
       (simp_all add: calls_of_handler calls_of_download_try req trace_bnd call_fetch_def
          split: sum.split)
  then have none: "GenerateObject ctx
      \<notin> set (trace (LIBRARY_DOWNLOAD_handler env message state))" for ctx
    by (simp add: extractor_calls_empty_iff)
  have network: "network_calls (trace (download_request env message state)) =
      (case outcome (ensure_state env message state) of Inl e \<Rightarrow> [] | Inr st \<Rightarrow> [?url])"
    by (simp add: req trace_bnd call_fetch_def url split: sum.split)
  have "set (network_calls (trace (LIBRARY_DOWNLOAD_handler env message state))) \<subseteq> {?url}"
    by (cases "key_configured env")
       (auto simp: calls_of_handler calls_of_download_try network split: sum.split)
  then have only: "url = ?url"
    if "Fetch url headers \<in> set (trace (LIBRARY_DOWNLOAD_handler env message state))"
    for url headers
    using that network_calls_member [of url "trace (LIBRARY_DOWNLOAD_handler env message state)"]
    by blast
  have once: "network_calls (trace (LIBRARY_DOWNLOAD_handler env message state)) = [?url]"
    if "key_configured env" "outcome (ensure_state env message state) = Inr st" for st
    using that by (simp add: calls_of_handler calls_of_download_try network)
  from sub none no_extractor only once show ?thesis by blast
qed

theorem direct_hash_skips_extractor_witness:
  "contains_hex32 ''Download book with MD5 5b723c172fc4c8a77f476e7016ad3945''
   \<and> extractor_calls (trace (LIBRARY_DOWNLOAD_handler
        (stub_env (Some ''key'') (Inr (Some JNull)) (respond True 200 ''[]'') (Inr (JArr [])))
        \<lparr>content_text = ''Download book with MD5 5b723c172fc4c8a77f476e7016ad3945''\<rparr> None)) = []
   \<and> network_calls (trace (LIBRARY_DOWNLOAD_handler
        (stub_env (Some ''key'') (Inr (Some JNull)) (respond True 200 ''[]'') (Inr (JArr [])))
        \<lparr>content_text = ''Download book with MD5 5b723c172fc4c8a77f476e7016ad3945''\<rparr> None))
      = [''https://annas-archive-api.p.rapidapi.com/download?md5=5b723c172fc4c8a77f476e7016ad3945'']"
proof -
  let ?E = "stub_env (Some ''key'') (Inr (Some JNull)) (respond True 200 ''[]'') (Inr (JArr []))"
  let ?M = "\<lparr>content_text = ''Download book with MD5 5b723c172fc4c8a77f476e7016ad3945''\<rparr>"
  have m: "match_hex32 ''Download book with MD5 5b723c172fc4c8a77f476e7016ad3945''
             = Some ''5b723c172fc4c8a77f476e7016ad3945''"
    by (simp add: hex32_here_def lower_hex_def)
  then have c: "contains_hex32 (content_text ?M)"
    by (simp add: contains_hex32_iff_match)
  have k: "key_configured ?E" by (simp add: stub_env_def key_configured_def)
  have s: "outcome (ensure_state ?E ?M None) = Inr ()"
    by (simp add: ensure_state_def call_composeState_def stub_env_def)
  have run: "network_calls (trace (LIBRARY_DOWNLOAD_handler ?E ?M None))
      = [''https://annas-archive-api.p.rapidapi.com/download?md5=5b723c172fc4c8a77f476e7016ad3945'']"
    by (simp add: LIBRARY_DOWNLOAD_handler_with_def trace_try_catch download_try_with_def download_request_with_def resolve_md5_with_def m
        download_process_with_def download_render_with_def falsy_or_empty_def download_url_def RAPID_API_HOST_def run_defs)
  from direct_hash_skips_extractor [OF c, of ?E None] k s run c show ?thesis
    by auto
qed

text \<open>
  Claim C4, as amended. When the text of the message contains no 32-character lowercase
  hexadecimal substring, the key is configured and the runtime composes the state,
  LIBRARY_DOWNLOAD calls the extractor exactly once; if \<^verbatim>\<open>content?.md5\<close> is then undefined
  (the result of the extractor has no \<^verbatim>\<open>md5\<close> field) or otherwise falsy, the body throws
  the error ``Could not find the MD5 hash for the requested book'', no network call is
  made, and the only callback is the apology with that message.
\<close>

theorem extractor_asked_once_without_hash:
  assumes "\<not> contains_hex32 (content_text message)"
    and "key_configured env"
    and "outcome (ensure_state env message state) = Inr st"
  shows "extractor_calls (trace (LIBRARY_DOWNLOAD_handler env message state))
           = [composeContext env st None DOWNLOAD_TEMPLATE]
         \<and> (\<forall>content v.
              generateObjectDeprecated env (composeContext env st None DOWNLOAD_TEMPLATE)
                = Inr content \<longrightarrow>
              opt_prop content ''md5'' = Inr v \<longrightarrow> \<not> truthy v \<longrightarrow>
                outcome (download_try env message state)
                  = Inl (Error ''Could not find the MD5 hash for the requested book'')
                \<and> network_calls (trace (LIBRARY_DOWNLOAD_handler env message state)) = []
                \<and> callbacks (trace (LIBRARY_DOWNLOAD_handler env message state))
                    = [''Sorry, I'' @ [CHR 0x27] @ ''m having trouble getting the download links: ''
                         @ ''Could not find the MD5 hash for the requested book''])"
proof (intro conjI allI impI)
  from assms(1) have none: "match_hex32 (content_text message) = None"
    by (simp add: contains_hex32_iff_match)
  note tr = trace_download_request_extractor [OF none assms(3)]
  show "extractor_calls (trace (LIBRARY_DOWNLOAD_handler env message state))
           = [composeContext env st None DOWNLOAD_TEMPLATE]"
    using assms(2)
    by (simp add: calls_of_handler calls_of_download_try tr extractor_calls_extract_md5
          split: sum.split)
  fix content v
  assume content: "generateObjectDeprecated env (composeContext env st None DOWNLOAD_TEMPLATE)
                = Inr content"
    and missing: "opt_prop content ''md5'' = Inr v" "\<not> truthy v"
  note ex = extract_md5_falsy [OF content missing]
  have req: "outcome (download_request env message state)
      = Inl (Error ''Could not find the MD5 hash for the requested book'')"
    by (rule outcome_download_request_extractor [OF none assms(3)]) (simp add: ex)
  show thrown: "outcome (download_try env message state)
                  = Inl (Error ''Could not find the MD5 hash for the requested book'')"
    using assms(2) req by (simp add: download_try_with_def outcome_bnd)
  show "network_calls (trace (LIBRARY_DOWNLOAD_handler env message state)) = []"
    using assms(2)
    by (simp add: calls_of_handler calls_of_download_try tr ex)
  have "callbacks (trace (download_try env message state)) = []"
    using assms(2) req
    by (simp add: download_try_with_def trace_bnd tr ex trace_ensure_state split: option.split)
  with thrown show "callbacks (trace (LIBRARY_DOWNLOAD_handler env message state))
                    = [''Sorry, I'' @ [CHR 0x27] @ ''m having trouble getting the download links: ''
                         @ ''Could not find the MD5 hash for the requested book'']"
    by (simp add: LIBRARY_DOWNLOAD_handler_with_def trace_try_catch trace_download_catch
          message_of_def)
qed

theorem extractor_asked_once_without_hash_witness:
  "\<not> contains_hex32 ''download the bostrom book''
   \<and> extractor_calls (trace (LIBRARY_DOWNLOAD_handler
        (stub_env (Some ''key'') (Inr (Some (JObj [(''title'', JStr ''Superintelligence'')])))
           (respond True 200 ''[]'') (Inr (JArr [])))
        \<lparr>content_text = ''download the bostrom book''\<rparr> None)) = [''recent messages'']
   \<and> network_calls (trace (LIBRARY_DOWNLOAD_handler
        (stub_env (Some ''key'') (Inr (Some (JObj [(''title'', JStr ''Superintelligence'')])))
           (respond True 200 ''[]'') (Inr (JArr [])))
        \<lparr>content_text = ''download the bostrom book''\<rparr> None)) = []
   \<and> callbacks (trace (LIBRARY_DOWNLOAD_handler
        (stub_env (Some ''key'') (Inr (Some (JObj [(''title'', JStr ''Superintelligence'')])))
           (respond True 200 ''[]'') (Inr (JArr [])))
        \<lparr>content_text = ''download the bostrom book''\<rparr> None))
      = [''Sorry, I'' @ [CHR 0x27] @ ''m having trouble getting the download links: ''
           @ ''Could not find the MD5 hash for the requested book'']"
proof -
  let ?E = "stub_env (Some ''key'') (Inr (Some (JObj [(''title'', JStr ''Superintelligence'')])))
           (respond True 200 ''[]'') (Inr (JArr []))"
  let ?M = "\<lparr>content_text = ''download the bostrom book''\<rparr>"
  have c: "\<not> contains_hex32 (content_text ?M)"
    by (simp add: contains_hex32_iff_match hex32_here_def)
  have k: "key_configured ?E" by (simp add: stub_env_def key_configured_def)
  have s: "outcome (ensure_state ?E ?M None) = Inr ()"
    by (simp add: ensure_state_def call_composeState_def stub_env_def)
  have ctx: "composeContext ?E () None DOWNLOAD_TEMPLATE = ''recent messages''"
    by (simp add: stub_env_def)
  have g: "generateObjectDeprecated ?E (composeContext ?E () None DOWNLOAD_TEMPLATE)
             = Inr (Some (JObj [(''title'', JStr ''Superintelligence'')]))"
    by (simp add: stub_env_def)
  have m: "opt_prop (Some (JObj [(''title'', JStr ''Superintelligence'')])) ''md5'' = Inr None"
    by (simp add: opt_prop_def)
  have f: "\<not> truthy None" by simp
  from extractor_asked_once_without_hash [OF c k s] g m f ctx c show ?thesis
    by simp
qed

text \<open>
  Claim C4 as stated fails: the text below contains no such substring, and the extractor
  is not called at all, once because the key is unset and once because the runtime fails
  to compose the state.
\<close>

theorem extractor_not_asked_counterexample:
  "\<not> contains_hex32 ''download the bostrom book''
   \<and> extractor_calls (trace (LIBRARY_DOWNLOAD_handler
        (stub_env None (Inr (Some (JObj [(''md5'', JStr ''8fd5a47e020c1e95c54bffa00cbf5484'')])))
           (respond True 200 ''[]'') (Inr (JArr [])))
        \<lparr>content_text = ''download the bostrom book''\<rparr> None)) = []
   \<and> extractor_calls (trace (LIBRARY_DOWNLOAD_handler
        ((stub_env (Some ''key'') (Inr (Some (JObj [(''md5'', JStr ''8fd5a47e020c1e95c54bffa00cbf5484'')])))
           (respond True 200 ''[]'') (Inr (JArr [])))
           \<lparr>composeState := (\<lambda>message. Inl (Error ''database unavailable''))\<rparr>)
        \<lparr>content_text = ''download the bostrom book''\<rparr> None)) = []"
  by (simp add: contains_hex32_iff_match LIBRARY_DOWNLOAD_handler_with_def trace_try_catch
        download_try_with_def download_request_with_def trace_download_catch run_defs)

text \<open>
  Claim C5. When the body of the response is not valid JSON, the processing of the response
  of either endpoint consists of one log line with the raw body and the parse error,
  whatever the status of the response: the status is not checked and nothing is rendered.
  The handler then logs the error and apologises with its message.
\<close>

theorem malformed_json_is_a_parse_error:
  assumes "body_text response = Inr raw" and "JSON_parse env raw = Inl m"
  shows "search_process env response =
           ([LogError ''Failed to parse response:'' (LStr raw)],
            Inl (Error (''Failed to parse API response: '' @ m)))
       \<and> download_process env response =
           ([LogError ''Failed to parse response:'' (LStr raw)],
            Inl (Error (''Failed to parse API response: '' @ m)))
       \<and> (key_configured env \<longrightarrow>
            outcome (search_request env message state) = Inr response \<longrightarrow>
              trace (LIBRARY_SEARCH_handler env message state) =
                trace (search_request env message state) @
                  [LogError ''Failed to parse response:'' (LStr raw),
                   LogError ''Library search error:''
                     (LThrown (Error (''Failed to parse API response: '' @ m))),
                   Callback (''Sorry, I'' @ [CHR 0x27] @ ''m having trouble with the search: ''
                               @ ''Failed to parse API response: '' @ m)])
       \<and> (key_configured env \<longrightarrow>
            outcome (download_request env message state) = Inr response \<longrightarrow>
              trace (LIBRARY_DOWNLOAD_handler env message state) =
                trace (download_request env message state) @
                  [LogError ''Failed to parse response:'' (LStr raw),
                   LogError ''Library download error:''
                     (LThrown (Error (''Failed to parse API response: '' @ m))),
                   Callback (''Sorry, I'' @ [CHR 0x27]
                               @ ''m having trouble getting the download links: ''
                               @ ''Failed to parse API response: '' @ m)])"
proof (intro conjI impI)
  show s: "search_process env response =
           ([LogError ''Failed to parse response:'' (LStr raw)],
            Inl (Error (''Failed to parse API response: '' @ m)))"
    by (simp add: search_process_with_def read_json_malformed [OF assms] bnd_failed)
  show d: "download_process env response =
           ([LogError ''Failed to parse response:'' (LStr raw)],
            Inl (Error (''Failed to parse API response: '' @ m)))"
    by (simp add: download_process_with_def read_json_malformed [OF assms] bnd_failed)
  {
    assume reached: "key_configured env"
      "outcome (search_request env message state) = Inr response"
    show "trace (LIBRARY_SEARCH_handler env message state) =
                trace (search_request env message state) @
                  [LogError ''Failed to parse response:'' (LStr raw),
                   LogError ''Library search error:''
                     (LThrown (Error (''Failed to parse API response: '' @ m))),
                   Callback (''Sorry, I'' @ [CHR 0x27] @ ''m having trouble with the search: ''
                               @ ''Failed to parse API response: '' @ m)]"
      by (simp add: LIBRARY_SEARCH_handler_with_def trace_try_catch search_try_reached [OF reached] s
            trace_search_catch message_of_def)
  }
  {
    assume reached: "key_configured env"
      "outcome (download_request env message state) = Inr response"
    show "trace (LIBRARY_DOWNLOAD_handler env message state) =
                trace (download_request env message state) @
                  [LogError ''Failed to parse response:'' (LStr raw),
                   LogError ''Library download error:''
                     (LThrown (Error (''Failed to parse API response: '' @ m))),
                   Callback (''Sorry, I'' @ [CHR 0x27]
                               @ ''m having trouble getting the download links: ''
                               @ ''Failed to parse API response: '' @ m)]"
      by (simp add: LIBRARY_DOWNLOAD_handler_with_def trace_try_catch download_try_reached [OF reached]
            d trace_download_catch message_of_def)
  }
qed

theorem malformed_json_is_a_parse_error_witness:
  "\<not> ok (respond False 502 ''<html>Bad Gateway</html>'')
   \<and> search_process
        (stub_env (Some ''key'') (Inr (Some JNull)) (respond False 502 ''<html>Bad Gateway</html>'')
           (Inl ''Unexpected token <''))
        (respond False 502 ''<html>Bad Gateway</html>'')
       = ([LogError ''Failed to parse response:'' (LStr ''<html>Bad Gateway</html>'')],
          Inl (Error ''Failed to parse API response: Unexpected token <''))
   \<and> trace (LIBRARY_DOWNLOAD_handler
        (stub_env (Some ''key'') (Inr (Some JNull)) (respond False 502 ''<html>Bad Gateway</html>'')
           (Inl ''Unexpected token <''))
        \<lparr>content_text = ''Download book with MD5 5b723c172fc4c8a77f476e7016ad3945''\<rparr> None)
       = [ComposeState,
          Fetch ''https://annas-archive-api.p.rapidapi.com/download?md5=5b723c172fc4c8a77f476e7016ad3945''
            [(''x-rapidapi-host'', ''annas-archive-api.p.rapidapi.com''), (''x-rapidapi-key'', ''key'')],
          LogError ''Failed to parse response:'' (LStr ''<html>Bad Gateway</html>''),
          LogError ''Library download error:''
            (LThrown (Error ''Failed to parse API response: Unexpected token <'')),
          Callback (''Sorry, I'' @ [CHR 0x27] @ ''m having trouble getting the download links: ''
                      @ ''Failed to parse API response: Unexpected token <'')]"
proof -
  let ?R = "respond False 502 ''<html>Bad Gateway</html>''"
  let ?E = "stub_env (Some ''key'') (Inr (Some JNull)) ?R (Inl ''Unexpected token <'')"
  let ?M = "\<lparr>content_text = ''Download book with MD5 5b723c172fc4c8a77f476e7016ad3945''\<rparr>"
  have b: "body_text ?R = Inr ''<html>Bad Gateway</html>''" by (simp add: respond_def)
  have p: "JSON_parse ?E ''<html>Bad Gateway</html>'' = Inl ''Unexpected token <''"
    by (simp add: stub_env_def)
  have k: "key_configured ?E" by (simp add: stub_env_def key_configured_def)
  have m: "match_hex32 ''Download book with MD5 5b723c172fc4c8a77f476e7016ad3945''
             = Some ''5b723c172fc4c8a77f476e7016ad3945''"
    by (simp add: hex32_here_def lower_hex_def)
  have req: "outcome (download_request ?E ?M None) = Inr ?R"
    by (simp add: download_request_with_def resolve_md5_with_def m run_defs)
  have tr: "trace (download_request ?E ?M None) =
      [ComposeState,
       Fetch ''https://annas-archive-api.p.rapidapi.com/download?md5=5b723c172fc4c8a77f476e7016ad3945''
         [(''x-rapidapi-host'', ''annas-archive-api.p.rapidapi.com''), (''x-rapidapi-key'', ''key'')]]"
    by (simp add: download_request_with_def resolve_md5_with_def m download_url_def RAPID_API_HOST_def
          run_defs)
  have n: "\<not> ok ?R" by (simp add: respond_def)
  from malformed_json_is_a_parse_error [OF b p, where message = ?M and state = None] k req tr n
  show ?thesis by simp
qed

text \<open>
  Claim C6. For a well-formed search response with at least one book, the text given to
  the callback is ``Found \<open>total\<close> books. Here are the top \<open>n\<close> results:'', then the entries
  of the books of the response in their order, one per book and two line breaks between
  them, then the hint about downloading. Here \<open>total\<close> and \<open>n\<close> are the decimal numerals of
  the total of the response and of the number of its books: \<open>show_nat\<close> gives the string
  of digits without a leading zero that denotes the number.
  An entry is the title in double quotes, the author after \<^verbatim>\<open>by\<close> and the year in brackets
  when they are present and not empty, then the line with format, size and genre
  (\<^verbatim>\<open>Unknown\<close> when absent or empty), then the line with the MD5 hash.
\<close>

theorem search_results_rendered_in_order:
  assumes "as_response data = Some r" and "books r \<noteq> []"
  shows "search_render data =
           ([Log ''Search results:'' (LVal (Some data)),
             Callback (''Found '' @ show_nat (total r) @ '' books. Here are the top ''
                         @ show_nat (length (books r)) @ '' results:''
                         @ ''\<newline>\<newline>''
                         @ concat (map (\<lambda>i. (if i = 0 then [] else ''\<newline>\<newline>'')
                                            @ render_book (books r ! i))
                                     [0..<length (books r)])
                         @ ''\<newline>\<newline>To download a book, ask me using its MD5 hash.'')],
            Inr ())
       \<and> get_prop (Some data) ''total'' = Inr (Some (JNum (show_nat (total r))))
       \<and> (\<forall>b. render_book b =
              ''\"'' @ title b @ ''\"''
                @ (case author b of None \<Rightarrow> [] | Some a \<Rightarrow> if a = [] then [] else '' by '' @ a)
                @ (case year b of None \<Rightarrow> [] | Some y \<Rightarrow> if y = [] then [] else '' ('' @ y @ '')'')
                @ ''\<newline>Format: '' @ format b @ '', Size: '' @ file_size b @ '', Genre: ''
                @ (case genre b of None \<Rightarrow> ''Unknown''
                   | Some g \<Rightarrow> if g = [] then ''Unknown'' else g)
                @ ''\<newline>MD5: '' @ md5 b)
       \<and> (\<forall>n. show_nat n \<noteq> []
              \<and> (\<forall>c\<in>set (show_nat n). c \<in> set ''0123456789'')
              \<and> (hd (show_nat n) = CHR ''0'' \<longrightarrow> show_nat n = ''0'')
              \<and> foldl (\<lambda>a c. 10 * a + (of_char c - 48)) 0 (show_nat n) = n)
       \<and> (key_configured env \<longrightarrow>
            outcome (search_request env message state) = Inr response \<longrightarrow>
            ok response \<longrightarrow> body_text response = Inr raw \<longrightarrow>
            JSON_parse env raw = Inr data \<longrightarrow>
              LIBRARY_SEARCH_handler env message state =
                (trace (search_request env message state) @
                   [Log ''Search results:'' (LVal (Some data)),
                    Callback (''Found '' @ show_nat (total r) @ '' books. Here are the top ''
                         @ show_nat (length (books r)) @ '' results:''
                         @ ''\<newline>\<newline>''
                         @ concat (map (\<lambda>i. (if i = 0 then [] else ''\<newline>\<newline>'')
                                            @ render_book (books r ! i))
                                     [0..<length (books r)])
                         @ ''\<newline>\<newline>To download a book, ask me using its MD5 hash.'')],
                 Inr ()))"
proof (intro conjI allI impI)
  show rendered: "search_render data =
           ([Log ''Search results:'' (LVal (Some data)),
             Callback (''Found '' @ show_nat (total r) @ '' books. Here are the top ''
                         @ show_nat (length (books r)) @ '' results:''
                         @ ''\<newline>\<newline>''
                         @ concat (map (\<lambda>i. (if i = 0 then [] else ''\<newline>\<newline>'')
                                            @ render_book (books r ! i))
                                     [0..<length (books r)])
                         @ ''\<newline>\<newline>To download a book, ask me using its MD5 hash.'')],
            Inr ())"
    by (rule search_render_well_formed(1) [OF assms])
  show "get_prop (Some data) ''total'' = Inr (Some (JNum (show_nat (total r))))"
    by (rule search_render_well_formed(2) [OF assms])
  show "render_book b =
              ''\"'' @ title b @ ''\"''
                @ (case author b of None \<Rightarrow> [] | Some a \<Rightarrow> if a = [] then [] else '' by '' @ a)
                @ (case year b of None \<Rightarrow> [] | Some y \<Rightarrow> if y = [] then [] else '' ('' @ y @ '')'')
                @ ''\<newline>Format: '' @ format b @ '', Size: '' @ file_size b @ '', Genre: ''
                @ (case genre b of None \<Rightarrow> ''Unknown''
                   | Some g \<Rightarrow> if g = [] then ''Unknown'' else g)
                @ ''\<newline>MD5: '' @ md5 b" for b
    by (simp add: render_book_def shown_def split: option.split)
  show "show_nat n \<noteq> []" "\<forall>c\<in>set (show_nat n). c \<in> set ''0123456789''"
    "foldl (\<lambda>a c. 10 * a + (of_char c - 48)) 0 (show_nat n) = n" for n
    using show_nat_decimal [of n] by blast+
  show "show_nat n = ''0''" if "hd (show_nat n) = CHR ''0''" for n
    using that show_nat_decimal [of n] by blast
  assume reached: "key_configured env" "outcome (search_request env message state) = Inr response"
    and resp: "ok response" "body_text response = Inr raw" "JSON_parse env raw = Inr data"
  show "LIBRARY_SEARCH_handler env message state =
                (trace (search_request env message state) @
                   [Log ''Search results:'' (LVal (Some data)),
                    Callback (''Found '' @ show_nat (total r) @ '' books. Here are the top ''
                         @ show_nat (length (books r)) @ '' results:''
                         @ ''\<newline>\<newline>''
                         @ concat (map (\<lambda>i. (if i = 0 then [] else ''\<newline>\<newline>'')
                                            @ render_book (books r ! i))
                                     [0..<length (books r)])
                         @ ''\<newline>\<newline>To download a book, ask me using its MD5 hash.'')],
                 Inr ())"
    by (rule search_handler_succeeds [OF reached])
       (simp only: search_process_parsed [OF resp(2,3,1)] rendered)
qed

theorem search_results_rendered_in_order_witness:
  "as_response
     (JObj [(''total'', JNum ''2''),
            (''books'', JArr
               [JObj [(''title'', JStr ''A''), (''author'', JStr ''X''),
                      (''md5'', JStr ''aaaaaaaaaaaaaaaaaaaaaaaaaaaaaaaa''), (''size'', JStr ''1MB''),
                      (''format'', JStr ''pdf'')],
                JObj [(''title'', JStr ''B''), (''author'', JStr ''''),
                      (''md5'', JStr ''bbbbbbbbbbbbbbbbbbbbbbbbbbbbbbbb''), (''size'', JStr ''2MB''),
                      (''genre'', JStr ''Science''), (''format'', JStr ''epub''),
                      (''year'', JStr ''2014'')]])])
     = Some \<lparr> total = 2,
              books = [\<lparr> title = ''A'', author = Some ''X'',
                         md5 = ''aaaaaaaaaaaaaaaaaaaaaaaaaaaaaaaa'', file_size = ''1MB'',
                         genre = None, format = ''pdf'', year = None \<rparr>,
                       \<lparr> title = ''B'', author = Some '''',
                         md5 = ''bbbbbbbbbbbbbbbbbbbbbbbbbbbbbbbb'', file_size = ''2MB'',
                         genre = Some ''Science'', format = ''epub'', year = Some ''2014'' \<rparr>] \<rparr>
   \<and> search_render
     (JObj [(''total'', JNum ''2''),
            (''books'', JArr
               [JObj [(''title'', JStr ''A''), (''author'', JStr ''X''),
                      (''md5'', JStr ''aaaaaaaaaaaaaaaaaaaaaaaaaaaaaaaa''), (''size'', JStr ''1MB''),
                      (''format'', JStr ''pdf'')],
                JObj [(''title'', JStr ''B''), (''author'', JStr ''''),
                      (''md5'', JStr ''bbbbbbbbbbbbbbbbbbbbbbbbbbbbbbbb''), (''size'', JStr ''2MB''),
                      (''genre'', JStr ''Science''), (''format'', JStr ''epub''),
                      (''year'', JStr ''2014'')]])])
     = ([Log ''Search results:''
           (LVal (Some
     (JObj [(''total'', JNum ''2''),
            (''books'', JArr
               [JObj [(''title'', JStr ''A''), (''author'', JStr ''X''),
                      (''md5'', JStr ''aaaaaaaaaaaaaaaaaaaaaaaaaaaaaaaa''), (''size'', JStr ''1MB''),
                      (''format'', JStr ''pdf'')],
                JObj [(''title'', JStr ''B''), (''author'', JStr ''''),
                      (''md5'', JStr ''bbbbbbbbbbbbbbbbbbbbbbbbbbbbbbbb''), (''size'', JStr ''2MB''),
                      (''genre'', JStr ''Science''), (''format'', JStr ''epub''),
                      (''year'', JStr ''2014'')]])]))),
         Callback (''Found 2 books. Here are the top 2 results:\<newline>\<newline>''
             @ ''\"A\" by X\<newline>Format: pdf, Size: 1MB, Genre: Unknown\<newline>''
             @ ''MD5: aaaaaaaaaaaaaaaaaaaaaaaaaaaaaaaa\<newline>\<newline>''
             @ ''\"B\" (2014)\<newline>Format: epub, Size: 2MB, Genre: Science\<newline>''
             @ ''MD5: bbbbbbbbbbbbbbbbbbbbbbbbbbbbbbbb\<newline>\<newline>''
             @ ''To download a book, ask me using its MD5 hash.'')],
        Inr ())"
proof -
  let ?D = "JObj [(''total'', JNum ''2''),
            (''books'', JArr
               [JObj [(''title'', JStr ''A''), (''author'', JStr ''X''),
                      (''md5'', JStr ''aaaaaaaaaaaaaaaaaaaaaaaaaaaaaaaa''), (''size'', JStr ''1MB''),
                      (''format'', JStr ''pdf'')],
                JObj [(''title'', JStr ''B''), (''author'', JStr ''''),
                      (''md5'', JStr ''bbbbbbbbbbbbbbbbbbbbbbbbbbbbbbbb''), (''size'', JStr ''2MB''),
                      (''genre'', JStr ''Science''), (''format'', JStr ''epub''),
                      (''year'', JStr ''2014'')]])]"
  let ?b1 = "\<lparr> title = ''A'', author = Some ''X'',
                         md5 = ''aaaaaaaaaaaaaaaaaaaaaaaaaaaaaaaa'', file_size = ''1MB'',
                         genre = None, format = ''pdf'', year = None \<rparr>"
  let ?b2 = "\<lparr> title = ''B'', author = Some '''',
                         md5 = ''bbbbbbbbbbbbbbbbbbbbbbbbbbbbbbbb'', file_size = ''2MB'',
                         genre = Some ''Science'', format = ''epub'', year = Some ''2014'' \<rparr>"
  let ?r = "\<lparr> total = 2, books = [?b1, ?b2] \<rparr>"
  have a: "as_response ?D = Some ?r"
    by (simp add: required_string_def optional_string_def decimal_value_def show_nat.simps)
  have n: "books ?r \<noteq> []" by simp
  from search_results_rendered_in_order [OF a n, THEN conjunct1] a
  show ?thesis
    by (simp add: render_book_def shown_def show_nat.simps)
qed



text \<open>
  Claim C8. For a non-empty list of links (an array, of fewer than \<open>2\<^sup>3\<^sup>2\<close> elements), the
  text given to the callback is the heading
  followed by one line per link in the order of the list, the \<open>i\<close>-th line being the decimal
  numeral of \<open>i\<close> (counted from 1), a full stop, a space and the \<open>i\<close>-th link; the links
  \<^verbatim>\<open>http://a\<close>, \<^verbatim>\<open>http://b\<close> give the two lines \<^verbatim>\<open>1. http://a\<close> and \<^verbatim>\<open>2. http://b\<close>.
\<close>

theorem links_numbered_in_order:
  assumes "ls \<noteq> []" and "length ls < 2 ^ 32"
  shows "download_render (JArr (map JStr ls)) =
           ([Callback (''Here are the download links for the book:\<newline>\<newline>''
                         @ concat (map (\<lambda>i. (if i = 0 then [] else ''\<newline>'')
                                            @ show_nat (i + 1) @ ''. '' @ ls ! i)
                                     [0..<length ls]))],
            Inr ())
       \<and> (\<forall>n. show_nat n \<noteq> []
              \<and> (\<forall>c\<in>set (show_nat n). c \<in> set ''0123456789'')
              \<and> (hd (show_nat n) = CHR ''0'' \<longrightarrow> show_nat n = ''0'')
              \<and> foldl (\<lambda>a c. 10 * a + (of_char c - 48)) 0 (show_nat n) = n)
       \<and> (key_configured env \<longrightarrow>
            outcome (download_request env message state) = Inr response \<longrightarrow>
            ok response \<longrightarrow> body_text response = Inr raw \<longrightarrow>
            JSON_parse env raw = Inr (JArr (map JStr ls)) \<longrightarrow>
              LIBRARY_DOWNLOAD_handler env message state =
                (trace (download_request env message state) @
                   [Callback (''Here are the download links for the book:\<newline>\<newline>''
                         @ concat (map (\<lambda>i. (if i = 0 then [] else ''\<newline>'')
                                            @ show_nat (i + 1) @ ''. '' @ ls ! i)
                                     [0..<length ls]))],
                 Inr ()))
       \<and> download_render (JArr [JStr ''http://a'', JStr ''http://b'']) =
           ([Callback (''Here are the download links for the book:\<newline>\<newline>''
                         @ ''1. http://a\<newline>2. http://b'')],
            Inr ())"
proof (intro conjI allI impI)
  show rendered: "download_render (JArr (map JStr ls)) =
           ([Callback (''Here are the download links for the book:\<newline>\<newline>''
                         @ concat (map (\<lambda>i. (if i = 0 then [] else ''\<newline>'')
                                            @ show_nat (i + 1) @ ''. '' @ ls ! i)
                                     [0..<length ls]))],
            Inr ())"
    by (rule download_render_links [OF assms(1)])
  show "show_nat n \<noteq> []" "\<forall>c\<in>set (show_nat n). c \<in> set ''0123456789''"
    "foldl (\<lambda>a c. 10 * a + (of_char c - 48)) 0 (show_nat n) = n" for n
    using show_nat_decimal [of n] by blast+
  show "show_nat n = ''0''" if "hd (show_nat n) = CHR ''0''" for n
    using that show_nat_decimal [of n] by blast
  have "download_render (JArr (map JStr [''http://a'', ''http://b''])) =
           ([Callback (''Here are the download links for the book:\<newline>\<newline>''
                         @ concat (map (\<lambda>i. (if i = 0 then [] else ''\<newline>'')
                                            @ show_nat (i + 1) @ ''. ''
                                            @ [''http://a'', ''http://b''] ! i)
                                     [0..<length [''http://a'', ''http://b'']]))],
            Inr ())"
    by (rule download_render_links) simp
  then show "download_render (JArr [JStr ''http://a'', JStr ''http://b'']) =
           ([Callback (''Here are the download links for the book:\<newline>\<newline>''
                         @ ''1. http://a\<newline>2. http://b'')],
            Inr ())"
    by (simp add: show_nat.simps)
  assume reached: "key_configured env" "outcome (download_request env message state) = Inr response"
    and resp: "ok response" "body_text response = Inr raw"
      "JSON_parse env raw = Inr (JArr (map JStr ls))"
  show "LIBRARY_DOWNLOAD_handler env message state =
                (trace (download_request env message state) @
                   [Callback (''Here are the download links for the book:\<newline>\<newline>''
                         @ concat (map (\<lambda>i. (if i = 0 then [] else ''\<newline>'')
                                            @ show_nat (i + 1) @ ''. '' @ ls ! i)
                                     [0..<length ls]))],
                 Inr ())"
    by (rule download_handler_succeeds [OF reached])
       (simp only: download_process_parsed [OF resp(2,3,1)] rendered)
qed

theorem links_numbered_in_order_witness:
  "[''http://a'', ''http://b'', ''http://c''] \<noteq> []
   \<and> download_render (JArr [JStr ''http://a'', JStr ''http://b'', JStr ''http://c''])
       = ([Callback (''Here are the download links for the book:\<newline>\<newline>''
                       @ ''1. http://a\<newline>2. http://b\<newline>3. http://c'')], Inr ())"
proof -
  have n: "[''http://a'', ''http://b'', ''http://c''] \<noteq> []" by simp
  have l: "length [''http://a'', ''http://b'', ''http://c''] < 2 ^ 32" by simp
  from links_numbered_in_order [OF n l, THEN conjunct1]
  show ?thesis by (simp add: show_nat.simps)
qed

text \<open>
  Claim C9. On the extractor path (the text of the message has no hash), when the
  extractor returns an object with a truthy \<^verbatim>\<open>md5\<close>, and \<open>title_text\<close>, \<open>author_text\<close> are
  what a template literal prints for its \<^verbatim>\<open>title\<close> and \<^verbatim>\<open>author\<close>, the callback with
  \<^verbatim>\<open>Downloading "title_text" by author_text...\<close> directly follows the extractor call, no
  network call precedes it, and the download request comes next, whatever \<^verbatim>\<open>fetch\<close> and
  the service answer. Conversely, whenever a network call is made on that path, the events
  before it end with the extractor call and that callback.
\<close>

theorem status_message_precedes_download:
  assumes "\<not> contains_hex32 (content_text message)"
  shows "(\<forall>st content hash title_text author_text.
            key_configured env \<longrightarrow>
            outcome (ensure_state env message state) = Inr st \<longrightarrow>
            generateObjectDeprecated env (composeContext env st None DOWNLOAD_TEMPLATE)
              = Inr content \<longrightarrow>
            opt_prop content ''md5'' = Inr hash \<longrightarrow> truthy hash \<longrightarrow>
            and_then (get_prop content ''title'') to_string = Inr title_text \<longrightarrow>
            and_then (get_prop content ''author'') to_string = Inr author_text \<longrightarrow>
              (\<exists>rest.
                 trace (LIBRARY_DOWNLOAD_handler env message state) =
                   trace (ensure_state env message state) @
                     [GenerateObject (composeContext env st None DOWNLOAD_TEMPLATE),
                      Callback (''Downloading \"'' @ title_text @ ''\" by '' @ author_text
                                  @ ''...'')]
                     @ rest
               \<and> network_calls (trace (ensure_state env message state)) = []
               \<and> (\<forall>hash_text. to_string hash = Inr hash_text \<longrightarrow>
                    (\<exists>after. rest = Fetch (download_url hash_text) (request_headers env) # after
                             \<and> network_calls after = []))))
       \<and> (network_calls (trace (LIBRARY_DOWNLOAD_handler env message state)) \<noteq> [] \<longrightarrow>
            (\<exists>st content title_text author_text.
               generateObjectDeprecated env (composeContext env st None DOWNLOAD_TEMPLATE)
                 = Inr content
             \<and> and_then (get_prop content ''title'') to_string = Inr title_text
             \<and> and_then (get_prop content ''author'') to_string = Inr author_text
             \<and> before_network (trace (LIBRARY_DOWNLOAD_handler env message state)) =
                 trace (ensure_state env message state) @
                   [GenerateObject (composeContext env st None DOWNLOAD_TEMPLATE),
                    Callback (''Downloading \"'' @ title_text @ ''\" by '' @ author_text
                                @ ''...'')]))"
proof (intro conjI allI impI)
  fix st content hash title_text author_text
  assume path: "key_configured env" "outcome (ensure_state env message state) = Inr st"
    "generateObjectDeprecated env (composeContext env st None DOWNLOAD_TEMPLATE) = Inr content"
    "opt_prop content ''md5'' = Inr hash" "truthy hash"
    "and_then (get_prop content ''title'') to_string = Inr title_text"
    "and_then (get_prop content ''author'') to_string = Inr author_text"
  let ?fetch = "case to_string hash of
                  Inl e \<Rightarrow> []
                | Inr hash_text \<Rightarrow> [Fetch (download_url hash_text) (request_headers env)]"
  from download_trace_with_status_message [OF path(1,2) assms path(3-7)]
  obtain quiet where quiet: "network_calls quiet = []"
    and whole: "trace (LIBRARY_DOWNLOAD_handler env message state) =
             trace (ensure_state env message state) @
               [GenerateObject (composeContext env st None DOWNLOAD_TEMPLATE),
                Callback (''Downloading \"'' @ title_text @ ''\" by '' @ author_text @ ''...'')]
               @ ?fetch @ quiet"
    by blast
  have "\<exists>after. ?fetch @ quiet = Fetch (download_url hash_text) (request_headers env) # after
               \<and> network_calls after = []"
    if "to_string hash = Inr hash_text" for hash_text
    using that quiet by simp
  with whole show "\<exists>rest.
                 trace (LIBRARY_DOWNLOAD_handler env message state) =
                   trace (ensure_state env message state) @
                     [GenerateObject (composeContext env st None DOWNLOAD_TEMPLATE),
                      Callback (''Downloading \"'' @ title_text @ ''\" by '' @ author_text
                                  @ ''...'')]
                     @ rest
               \<and> network_calls (trace (ensure_state env message state)) = []
               \<and> (\<forall>hash_text. to_string hash = Inr hash_text \<longrightarrow>
                    (\<exists>after. rest = Fetch (download_url hash_text) (request_headers env) # after
                             \<and> network_calls after = []))"
    by (intro exI [of _ "?fetch @ quiet"]) simp
next
  assume issued: "network_calls (trace (LIBRARY_DOWNLOAD_handler env message state)) \<noteq> []"
  from download_trace_on_extractor_path [OF assms issued]
  obtain st content hash title_text author_text where
    path: "key_configured env" "outcome (ensure_state env message state) = Inr st"
    "generateObjectDeprecated env (composeContext env st None DOWNLOAD_TEMPLATE) = Inr content"
    "opt_prop content ''md5'' = Inr hash" "truthy hash"
    "and_then (get_prop content ''title'') to_string = Inr title_text"
    "and_then (get_prop content ''author'') to_string = Inr author_text"
    by blast
  let ?front = "trace (ensure_state env message state) @
               [GenerateObject (composeContext env st None DOWNLOAD_TEMPLATE),
                Callback (''Downloading \"'' @ title_text @ ''\" by '' @ author_text @ ''...'')]"
  from download_trace_with_status_message [OF path(1,2) assms path(3-7)]
  obtain quiet where quiet: "network_calls quiet = []"
    and whole: "trace (LIBRARY_DOWNLOAD_handler env message state) =
             ?front @ (case to_string hash of
                    Inl e \<Rightarrow> []
                  | Inr hash_text \<Rightarrow> [Fetch (download_url hash_text) (request_headers env)])
               @ quiet"
    by auto
  from issued whole quiet obtain hash_text where "to_string hash = Inr hash_text"
    by (cases "to_string hash") simp_all
  with whole have "trace (LIBRARY_DOWNLOAD_handler env message state) =
      ?front @ Fetch (download_url hash_text) (request_headers env) # quiet"
    by simp
  moreover have "network_calls ?front = []" by simp
  ultimately have "before_network (trace (LIBRARY_DOWNLOAD_handler env message state)) = ?front"
    by (simp only: before_network_first)
  with path(3,6,7) show "\<exists>st content title_text author_text.
               generateObjectDeprecated env (composeContext env st None DOWNLOAD_TEMPLATE)
                 = Inr content
             \<and> and_then (get_prop content ''title'') to_string = Inr title_text
             \<and> and_then (get_prop content ''author'') to_string = Inr author_text
             \<and> before_network (trace (LIBRARY_DOWNLOAD_handler env message state)) =
                 trace (ensure_state env message state) @
                   [GenerateObject (composeContext env st None DOWNLOAD_TEMPLATE),
                    Callback (''Downloading \"'' @ title_text @ ''\" by '' @ author_text
                                @ ''...'')]"
    by blast
qed

theorem status_message_precedes_download_witness:
  "take 4 (trace (LIBRARY_DOWNLOAD_handler
      (stub_env (Some ''key'')
         (Inr (Some (JObj [(''md5'', JStr ''8fd5a47e020c1e95c54bffa00cbf5484''),
                           (''title'', JStr ''Superintelligence: Paths, Dangers, Strategies''),
                           (''author'', JStr ''Nick Bostrom'')])))
         (respond False 500 ''Internal Server Error'') (Inl ''Unexpected token I''))
      \<lparr>content_text = ''download the bostrom book''\<rparr> None))
   = [ComposeState, GenerateObject ''recent messages'',
      Callback ''Downloading \"Superintelligence: Paths, Dangers, Strategies\" by Nick Bostrom...'',
      Fetch ''https://annas-archive-api.p.rapidapi.com/download?md5=8fd5a47e020c1e95c54bffa00cbf5484''
        [(''x-rapidapi-host'', ''annas-archive-api.p.rapidapi.com''), (''x-rapidapi-key'', ''key'')]]"
proof -
  let ?C = "Some (JObj [(''md5'', JStr ''8fd5a47e020c1e95c54bffa00cbf5484''),
                           (''title'', JStr ''Superintelligence: Paths, Dangers, Strategies''),
                           (''author'', JStr ''Nick Bostrom'')])"
  let ?E = "stub_env (Some ''key'') (Inr ?C)
         (respond False 500 ''Internal Server Error'') (Inl ''Unexpected token I'')"
  let ?M = "\<lparr>content_text = ''download the bostrom book''\<rparr>"
  have k: "key_configured ?E" by (simp add: stub_env_def key_configured_def)
  have s: "outcome (ensure_state ?E ?M None) = Inr ()"
    by (simp add: ensure_state_def call_composeState_def stub_env_def)
  have c: "\<not> contains_hex32 (content_text ?M)"
    by (simp add: contains_hex32_iff_match hex32_here_def)
  have g: "generateObjectDeprecated ?E (composeContext ?E () None DOWNLOAD_TEMPLATE) = Inr ?C"
    by (simp add: stub_env_def)
  have h: "opt_prop ?C ''md5'' = Inr (Some (JStr ''8fd5a47e020c1e95c54bffa00cbf5484''))"
    by (simp add: opt_prop_def)
  have t: "truthy (Some (JStr ''8fd5a47e020c1e95c54bffa00cbf5484''))" by simp
  have ti: "and_then (get_prop ?C ''title'') to_string
              = Inr ''Superintelligence: Paths, Dangers, Strategies''"
    by (simp add: and_then_def to_string_def)
  have au: "and_then (get_prop ?C ''author'') to_string = Inr ''Nick Bostrom''"
    by (simp add: and_then_def to_string_def)
  from status_message_precedes_download [OF c, THEN conjunct1, rule_format, OF k s g h t ti au]
  obtain rest where
    tr: "trace (LIBRARY_DOWNLOAD_handler ?E ?M None) =
           trace (ensure_state ?E ?M None) @
             [GenerateObject (composeContext ?E () None DOWNLOAD_TEMPLATE),
              Callback (''Downloading \"'' @ ''Superintelligence: Paths, Dangers, Strategies''
                          @ ''\" by '' @ ''Nick Bostrom'' @ ''...'')] @ rest"
    and fetch: "\<forall>hash_text. to_string (Some (JStr ''8fd5a47e020c1e95c54bffa00cbf5484''))
                    = Inr hash_text \<longrightarrow>
              (\<exists>after. rest = Fetch (download_url hash_text) (request_headers ?E) # after
                       \<and> network_calls after = [])"
    by blast
  from fetch obtain after where
    "rest = Fetch (download_url ''8fd5a47e020c1e95c54bffa00cbf5484'') (request_headers ?E) # after"
    by (auto simp: to_string_def)
  with tr show ?thesis
    by (simp add: trace_ensure_state stub_env_def download_url_def RAPID_API_HOST_def
          request_headers_def)
qed

text \<open>
  Claim C10. The pattern of line 330 is not anchored: the match is the first window of 32
  lowercase hexadecimal characters anywhere in the text, and every text that contains such
  a window matches. In particular the first 32 characters of a longer run (a 40- or
  64-character hash) match. No match contains an uppercase digit, and a 32-character hash
  with an uppercase digit, standing between delimiters, does not match, so that the
  handler asks the extractor. The handler takes the match as the hash.
\<close>

theorem pattern_takes_first_window:
  "(match_hex32 s = Some h \<longrightarrow>
      (\<exists>pre post. s = pre @ h @ post \<and> length h = 32 \<and> list_all lower_hex h
         \<and> (\<forall>pre' h' post'. s = pre' @ h' @ post' \<and> length h' = 32 \<and> list_all lower_hex h'
               \<longrightarrow> length pre \<le> length pre')))
   \<and> (contains_hex32 s \<longleftrightarrow> (\<exists>found. match_hex32 s = Some found))
   \<and> (list_all lower_hex run \<and> 32 \<le> length run
        \<and> \<not> contains_hex32 pre \<and> (pre = [] \<or> \<not> lower_hex (last pre))
      \<longrightarrow> match_hex32 (pre @ run @ post) = Some (take 32 run))
   \<and> (match_hex32 s = Some h \<longrightarrow> (\<forall>c\<in>set h. \<not> upper_hex c))
   \<and> (length H = 32 \<and> (\<exists>c\<in>set H. upper_hex c)
        \<and> \<not> contains_hex32 pre \<and> (pre = [] \<or> \<not> lower_hex (last pre))
        \<and> \<not> contains_hex32 post \<and> (post = [] \<or> \<not> lower_hex (hd post))
      \<longrightarrow> match_hex32 (pre @ H @ post) = None)
   \<and> (match_hex32 (content_text message) = Some h \<longrightarrow>
        resolve_md5 env message st = ([], Inr (Some (JStr h))))
   \<and> (match_hex32 (content_text message) = None \<longrightarrow>
        resolve_md5 env message st = extract_md5 env st)"
proof (intro conjI impI)
  show "\<exists>pre post. s = pre @ h @ post \<and> length h = 32 \<and> list_all lower_hex h
         \<and> (\<forall>pre' h' post'. s = pre' @ h' @ post' \<and> length h' = 32 \<and> list_all lower_hex h'
               \<longrightarrow> length pre \<le> length pre')"
    if "match_hex32 s = Some h"
    using that by (rule match_hex32_first)
  show "contains_hex32 s \<longleftrightarrow> (\<exists>found. match_hex32 s = Some found)"
    by (simp add: contains_hex32_iff_match)
  show "match_hex32 (pre @ run @ post) = Some (take 32 run)"
    if "list_all lower_hex run \<and> 32 \<le> length run
        \<and> \<not> contains_hex32 pre \<and> (pre = [] \<or> \<not> lower_hex (last pre))"
    using that by (intro match_hex32_long_run) simp_all
  show "\<forall>c\<in>set h. \<not> upper_hex c" if "match_hex32 s = Some h"
    using match_hex32_is_substring [OF that]
    by (auto simp: list_all_iff dest: upper_not_lower)
  show "match_hex32 (pre @ H @ post) = None"
    if "length H = 32 \<and> (\<exists>c\<in>set H. upper_hex c)
        \<and> \<not> contains_hex32 pre \<and> (pre = [] \<or> \<not> lower_hex (last pre))
        \<and> \<not> contains_hex32 post \<and> (post = [] \<or> \<not> lower_hex (hd post))"
    using that by (intro match_hex32_uppercase_token) simp_all
  show "resolve_md5 env message st = ([], Inr (Some (JStr h)))"
    if "match_hex32 (content_text message) = Some h"
    using resolve_md5_direct [OF that] by (simp add: ret_def)
  show "resolve_md5 env message st = extract_md5 env st"
    if "match_hex32 (content_text message) = None"
    using that by (rule resolve_md5_extractor)
qed

theorem pattern_takes_first_window_witness:
  "match_hex32 (''get '' @ ''da39a3ee5e6b4b0d3255bfef95601890afd80709'' @ '' please'')
     = Some ''da39a3ee5e6b4b0d3255bfef95601890''
   \<and> match_hex32 (''Download book with MD5 '' @ ''5B723C172FC4C8A77F476E7016AD3945'' @ '''')
     = None"
proof -
  have run: "list_all lower_hex ''da39a3ee5e6b4b0d3255bfef95601890afd80709''
      \<and> 32 \<le> length ''da39a3ee5e6b4b0d3255bfef95601890afd80709''
      \<and> \<not> contains_hex32 ''get '' \<and> (''get '' = [] \<or> \<not> lower_hex (last ''get ''))"
    by (simp add: contains_hex32_iff_match hex32_here_def lower_hex_def)
  have upper: "length ''5B723C172FC4C8A77F476E7016AD3945'' = 32
      \<and> (\<exists>c\<in>set ''5B723C172FC4C8A77F476E7016AD3945''. upper_hex c)
      \<and> \<not> contains_hex32 ''Download book with MD5 ''
      \<and> (''Download book with MD5 '' = [] \<or> \<not> lower_hex (last ''Download book with MD5 ''))
      \<and> \<not> contains_hex32 '''' \<and> ('''' = [] \<or> \<not> lower_hex (hd ''''))"
    by (simp add: contains_hex32_iff_match hex32_here_def lower_hex_def upper_hex_def)
  note third = pattern_takes_first_window
         [where run = "''da39a3ee5e6b4b0d3255bfef95601890afd80709''" and pre = "''get ''"
            and post = "'' please''", THEN conjunct2, THEN conjunct2, THEN conjunct1]
  from third run
  have first: "match_hex32 (''get '' @ ''da39a3ee5e6b4b0d3255bfef95601890afd80709'' @ '' please'')
     = Some (take 32 ''da39a3ee5e6b4b0d3255bfef95601890afd80709'')"
    by (rule mp)
  note fifth = pattern_takes_first_window
         [where H = "''5B723C172FC4C8A77F476E7016AD3945''" and pre = "''Download book with MD5 ''"
            and post = "''''", THEN conjunct2, THEN conjunct2, THEN conjunct2, THEN conjunct2,
            THEN conjunct1]
  from fifth upper
  have "match_hex32 (''Download book with MD5 '' @ ''5B723C172FC4C8A77F476E7016AD3945'' @ '''')
     = None"
    by (rule mp)
  with first show ?thesis by simp
qed

end
